theory Spec2Isabelle
  imports Complex_Main
begin

section \<open>Entity model (models.py)\<close>

text \<open>
  The four classes of \<^verbatim>\<open>models.py\<close> as records, with the field types of
  the source's annotations. Fields are prefixed by their class (\<open>st_\<close>, \<open>t_\<close>,
  \<open>sg_\<close>, \<open>g_\<close>) because the classes share attribute names. The attribute
  \<^verbatim>\<open>Task.due\<close> is kept as an optional string: the constructor's parameter is
  \<^verbatim>\<open>Optional[str]\<close>, and whether the stored value can be null is a property
  to prove, not one to assume in the type.
\<close>

record Subtask =
  st_id :: string
  st_parent_task_id :: string
  st_description :: string
  st_done :: bool

record Task =
  t_id :: string
  t_parent_subgoal_id :: string
  t_parent_goal_id :: string
  t_task :: string
  t_due :: "string option"
  t_started :: bool
  t_done :: bool
  t_subtasks :: "Subtask list"
  t_counted :: bool
  t_estimated_minutes :: "int option"

record Subgoal =
  sg_id :: string
  sg_parent_goal_id :: string
  sg_title :: string
  sg_level :: int
  sg_tasks :: "Task list"
  sg_status :: string

text \<open>
  A naive \<^verbatim>\<open>datetime\<close> (what \<^verbatim>\<open>datetime.now()\<close> returns): its seven
  fields.
\<close>

record datetime =
  dt_year :: nat
  dt_month :: nat
  dt_day :: nat
  dt_hour :: nat
  dt_minute :: nat
  dt_second :: nat
  dt_microsecond :: nat

record Goal =
  g_id :: string
  g_title :: string
  g_description :: string
  g_subgoals :: "Subgoal list"
  g_status :: string
  g_category :: string
  g_created_at :: datetime
  g_confidence :: int
  g_rationale :: string

subsection \<open>Completion percentages\<close>

text \<open>
  Python's \<^verbatim>\<open>float\<close> results are read as the real numbers they denote:
  \<^verbatim>\<open>(completed / len(xs)) * 100\<close> is the quotient times one hundred.
  \<^verbatim>\<open>sum(1 for x in xs if x.done)\<close> is the number of elements with the flag set.
\<close>

definition Task_get_completion_percentage :: "Task \<Rightarrow> real" where
  "Task_get_completion_percentage t =
     (if t_subtasks t = [] then (if t_done t then 100 else 0)
      else (let completed = length (filter st_done (t_subtasks t))
            in (real completed / real (length (t_subtasks t))) * 100))"

definition Subgoal_get_completion_percentage :: "Subgoal \<Rightarrow> real" where
  "Subgoal_get_completion_percentage sg =
     (if sg_tasks sg = [] then 0
      else (let completed = length (filter t_done (sg_tasks sg))
            in (real completed / real (length (sg_tasks sg))) * 100))"

definition Goal_get_total_tasks :: "Goal \<Rightarrow> nat" where
  "Goal_get_total_tasks g = sum_list (map (\<lambda>sg. length (sg_tasks sg)) (g_subgoals g))"

definition Goal_get_completed_tasks :: "Goal \<Rightarrow> nat" where
  "Goal_get_completed_tasks g =
     sum_list (map (\<lambda>sg. length (filter t_done (sg_tasks sg))) (g_subgoals g))"

definition Goal_get_completion_percentage :: "Goal \<Rightarrow> real" where
  "Goal_get_completion_percentage g =
     (if g_subgoals g = [] then 0
      else (let total_tasks = sum_list (map (\<lambda>sg. length (sg_tasks sg)) (g_subgoals g))
            in if total_tasks = 0 then 0
               else (let completed_tasks =
                           sum_list (map (\<lambda>sg. length (filter t_done (sg_tasks sg))) (g_subgoals g))
                     in (real completed_tasks / real total_tasks) * 100)))"

subsection \<open>Status roll-up\<close>

text \<open>
  \<^verbatim>\<open>update_status\<close> mutates \<^verbatim>\<open>self.status\<close>; the model returns the
  updated object. The three branches of the source's \<^verbatim>\<open>if/elif/else\<close> are kept,
  although the last two store the same value.
\<close>

definition Subgoal_update_status :: "Subgoal \<Rightarrow> Subgoal" where
  "Subgoal_update_status sg =
     (if sg_tasks sg = [] then sg\<lparr>sg_status := ''active''\<rparr>
      else if list_all t_done (sg_tasks sg) then sg\<lparr>sg_status := ''completed''\<rparr>
      else if list_ex t_started (sg_tasks sg) then sg\<lparr>sg_status := ''active''\<rparr>
      else sg\<lparr>sg_status := ''active''\<rparr>)"

text \<open>
  \<^verbatim>\<open>Goal.update_status\<close> returns before its loop when there are no subgoals;
  otherwise it updates every subgoal in place, then reads their statuses.
\<close>

definition Goal_update_status :: "Goal \<Rightarrow> Goal" where
  "Goal_update_status g =
     (if g_subgoals g = [] then g\<lparr>g_status := ''active''\<rparr>
      else (let sgs = map Subgoal_update_status (g_subgoals g);
                g1 = g\<lparr>g_subgoals := sgs\<rparr>
            in if list_all (\<lambda>sg. sg_status sg = ''completed'') sgs
               then g1\<lparr>g_status := ''completed''\<rparr>
               else if list_ex (\<lambda>sg. sg_status sg = ''active'') sgs
               then g1\<lparr>g_status := ''active''\<rparr>
               else g1\<lparr>g_status := ''active''\<rparr>))"

text \<open>Every task of every subgoal of a goal has its own \<^verbatim>\<open>done\<close> flag set.\<close>

definition all_leaf_tasks_done :: "Goal \<Rightarrow> bool" where
  "all_leaf_tasks_done g = list_all (\<lambda>sg. list_all t_done (sg_tasks sg)) (g_subgoals g)"

section \<open>Python values, dictionaries and errors\<close>

text \<open>
  The values that \<^verbatim>\<open>to_dict\<close> produces, \<^verbatim>\<open>from_dict\<close> consumes and
  \<^verbatim>\<open>json.loads\<close> returns. A dictionary is the list of its items in insertion
  order, with distinct keys; a lookup reads the first item with the key.
\<close>

datatype pyval =
    PNone
  | PBool bool
  | PInt int
  | PFloat real
  | PStr string
  | PList "pyval list"
  | PDict "(string \<times> pyval) list"

type_synonym pydict = "(string \<times> pyval) list"

text \<open>
  Exceptions as values. \<open>OutsideModel\<close> is not a Python exception: Python stores any
  object in any attribute, while the records carry the types of the source's annotations.
  Where a value of another type would be stored (or a library call is given an input whose
  treatment is not modelled), the model stops with \<open>OutsideModel\<close> instead of
  inventing a result. Lookups that raise in Python are evaluated before the typed
  conversions, in the order of the source.
\<close>

datatype py_error =
    KeyError string
  | TypeError string
  | ValueError string
  | IndexError string
  | AttributeError string
  | JSONDecodeError string
  | ServiceError string
  | OutsideModel string

text \<open>Truth value of an object, as tested by \<^verbatim>\<open>x or y\<close>.\<close>

definition truthy :: "pyval \<Rightarrow> bool" where
  "truthy v = (case v of PNone \<Rightarrow> False | PBool b \<Rightarrow> b | PInt i \<Rightarrow> i \<noteq> 0
     | PFloat r \<Rightarrow> r \<noteq> 0 | PStr s \<Rightarrow> s \<noteq> [] | PList xs \<Rightarrow> xs \<noteq> [] | PDict d \<Rightarrow> d \<noteq> [])"

text \<open>\<^verbatim>\<open>data.get(k, default)\<close> and \<^verbatim>\<open>data[k]\<close>.\<close>

definition dict_get :: "pydict \<Rightarrow> string \<Rightarrow> pyval \<Rightarrow> pyval" where
  "dict_get d k dflt = (case map_of d k of None \<Rightarrow> dflt | Some v \<Rightarrow> v)"

definition dict_item :: "pydict \<Rightarrow> string \<Rightarrow> py_error + pyval" where
  "dict_item d k = (case map_of d k of None \<Rightarrow> Inl (KeyError k) | Some v \<Rightarrow> Inr v)"

text \<open>
  Subscripting with a string key (\<^verbatim>\<open>data["description"]\<close>) raises
  \<^verbatim>\<open>TypeError\<close> on every value of \<open>pyval\<close> that is not a dictionary.
\<close>

definition as_dict :: "pyval \<Rightarrow> py_error + pydict" where
  "as_dict v = (case v of PDict d \<Rightarrow> Inr d | _ \<Rightarrow> Inl (TypeError ''not subscriptable by key''))"

text \<open>
  Iteration (\<^verbatim>\<open>for x in v\<close>): a list yields its elements, a string its characters,
  a dictionary its keys; nothing else is iterable.
\<close>

definition py_iter :: "pyval \<Rightarrow> py_error + pyval list" where
  "py_iter v = (case v of PList xs \<Rightarrow> Inr xs
     | PStr s \<Rightarrow> Inr (map (\<lambda>c. PStr [c]) s)
     | PDict d \<Rightarrow> Inr (map (\<lambda>kv. PStr (fst kv)) d)
     | _ \<Rightarrow> Inl (TypeError ''object is not iterable''))"

text \<open>Conversions into the annotated field types.\<close>

definition as_str :: "pyval \<Rightarrow> py_error + string" where
  "as_str v = (case v of PStr s \<Rightarrow> Inr s | _ \<Rightarrow> Inl (OutsideModel ''str expected''))"

definition as_bool :: "pyval \<Rightarrow> py_error + bool" where
  "as_bool v = (case v of PBool b \<Rightarrow> Inr b | _ \<Rightarrow> Inl (OutsideModel ''bool expected''))"

definition as_int :: "pyval \<Rightarrow> py_error + int" where
  "as_int v = (case v of PInt i \<Rightarrow> Inr i | _ \<Rightarrow> Inl (OutsideModel ''int expected''))"

definition as_opt_str :: "pyval \<Rightarrow> py_error + string option" where
  "as_opt_str v = (case v of PNone \<Rightarrow> Inr None | PStr s \<Rightarrow> Inr (Some s)
     | _ \<Rightarrow> Inl (OutsideModel ''Optional[str] expected''))"

definition as_opt_int :: "pyval \<Rightarrow> py_error + int option" where
  "as_opt_int v = (case v of PNone \<Rightarrow> Inr None | PInt i \<Rightarrow> Inr (Some i)
     | _ \<Rightarrow> Inl (OutsideModel ''Optional[int] expected''))"

text \<open>
  \<^verbatim>\<open>x or default\<close> takes the default for every falsy \<open>x\<close>, not only for
  \<^verbatim>\<open>None\<close>: falsy values are turned into \<open>PNone\<close> before the conversion to an
  optional string.
\<close>

definition falsy_to_None :: "pyval \<Rightarrow> pyval" where
  "falsy_to_None v = (if truthy v then v else PNone)"

definition of_opt_str :: "string option \<Rightarrow> pyval" where
  "of_opt_str x = (case x of None \<Rightarrow> PNone | Some s \<Rightarrow> PStr s)"

definition of_opt_int :: "int option \<Rightarrow> pyval" where
  "of_opt_int x = (case x of None \<Rightarrow> PNone | Some i \<Rightarrow> PInt i)"

text \<open>
  A list comprehension over a function that may raise and that may draw identifiers: the
  elements are converted left to right, the counter of drawn identifiers is threaded
  through, and the first exception ends the comprehension.
\<close>

fun map_result :: "(nat \<Rightarrow> 'a \<Rightarrow> py_error + ('b \<times> nat)) \<Rightarrow> nat \<Rightarrow> 'a list \<Rightarrow> py_error + ('b list \<times> nat)" where
  "map_result f n [] = Inr ([], n)"
| "map_result f n (x # xs) =
     (case f n x of Inl e \<Rightarrow> Inl e
      | Inr (y, n1) \<Rightarrow>
          (case map_result f n1 xs of Inl e \<Rightarrow> Inl e
           | Inr (ys, n2) \<Rightarrow> Inr (y # ys, n2)))"

section \<open>Decimal numerals and ISO timestamps\<close>

text \<open>
  \<open>decimal n\<close> is \<^verbatim>\<open>str(n)\<close> for a natural number; \<open>zpad w n\<close> is the format
  \<^verbatim>\<open>%0wd\<close>, which pads with zeros to at least \<open>w\<close> digits and never truncates.
\<close>

definition digit_char :: "nat \<Rightarrow> char" where
  "digit_char d = ''0123456789'' ! d"

definition digit_val :: "char \<Rightarrow> nat option" where
  "digit_val c = map_of [(CHR ''0'', 0), (CHR ''1'', 1), (CHR ''2'', 2), (CHR ''3'', 3),
     (CHR ''4'', 4), (CHR ''5'', 5), (CHR ''6'', 6), (CHR ''7'', 7), (CHR ''8'', 8),
     (CHR ''9'', 9)] c"

function decimal :: "nat \<Rightarrow> string" where
  "decimal n = (if n < 10 then [digit_char n] else decimal (n div 10) @ [digit_char (n mod 10)])"
  by pat_completeness auto
termination
  by (relation "measure id") auto

declare decimal.simps [simp del]

definition zpad :: "nat \<Rightarrow> nat \<Rightarrow> string" where
  "zpad w n = replicate (w - length (decimal n)) (CHR ''0'') @ decimal n"

fun parse_nat_acc :: "nat \<Rightarrow> string \<Rightarrow> nat option" where
  "parse_nat_acc acc [] = Some acc"
| "parse_nat_acc acc (c # cs) =
     (case digit_val c of None \<Rightarrow> None | Some d \<Rightarrow> parse_nat_acc (acc * 10 + d) cs)"

definition parse_nat :: "string \<Rightarrow> nat option" where
  "parse_nat s = (if s = [] then None else parse_nat_acc 0 s)"

text \<open>
  \<^verbatim>\<open>datetime.isoformat\<close> and \<^verbatim>\<open>datetime.fromisoformat\<close> belong to Python's
  standard library, not to the repository. They are modelled here for naive timestamps:
  \<open>valid_datetime\<close> is the range check of the \<^verbatim>\<open>datetime\<close> constructor,
  \<open>isoformat\<close> writes \<^verbatim>\<open>YYYY-MM-DDTHH:MM:SS\<close>, followed by
  \<^verbatim>\<open>.ffffff\<close> when the microsecond is not zero, and \<open>fromisoformat\<close> reads
  these two shapes. Python accepts further shapes (a date alone, a UTC offset, other
  separators); on those the model answers \<open>OutsideModel\<close>.
\<close>

definition days_in_month :: "nat \<Rightarrow> nat \<Rightarrow> nat" where
  "days_in_month y m =
     (if m = 2 then (if y mod 4 = 0 \<and> (y mod 100 \<noteq> 0 \<or> y mod 400 = 0) then 29 else 28)
      else if m = 4 \<or> m = 6 \<or> m = 9 \<or> m = 11 then 30 else 31)"

definition valid_datetime :: "datetime \<Rightarrow> bool" where
  "valid_datetime d =
     (1 \<le> dt_year d \<and> dt_year d \<le> 9999 \<and> 1 \<le> dt_month d \<and> dt_month d \<le> 12 \<and>
      1 \<le> dt_day d \<and> dt_day d \<le> days_in_month (dt_year d) (dt_month d) \<and>
      dt_hour d < 24 \<and> dt_minute d < 60 \<and> dt_second d < 60 \<and> dt_microsecond d < 1000000)"

definition isoformat :: "datetime \<Rightarrow> string" where
  "isoformat d =
     zpad 4 (dt_year d) @ ''-'' @ zpad 2 (dt_month d) @ ''-'' @ zpad 2 (dt_day d) @ ''T'' @
     zpad 2 (dt_hour d) @ '':'' @ zpad 2 (dt_minute d) @ '':'' @ zpad 2 (dt_second d) @
     (if dt_microsecond d = 0 then [] else ''.'' @ zpad 6 (dt_microsecond d))"

definition fromisoformat :: "string \<Rightarrow> py_error + datetime" where
  "fromisoformat s =
     (let frac = drop 19 s in
      if length s < 19 \<or> s ! 4 \<noteq> CHR ''-'' \<or> s ! 7 \<noteq> CHR ''-'' \<or> s ! 13 \<noteq> CHR '':'' \<or>
         s ! 16 \<noteq> CHR '':'' \<or> (frac \<noteq> [] \<and> (length frac \<noteq> 7 \<or> hd frac \<noteq> CHR ''.''))
      then Inl (OutsideModel ''fromisoformat: shape not modelled'')
      else
        (case Option.bind (parse_nat (take 4 s)) (\<lambda>y.
              Option.bind (parse_nat (take 2 (drop 5 s))) (\<lambda>mo.
              Option.bind (parse_nat (take 2 (drop 8 s))) (\<lambda>dd.
              Option.bind (parse_nat (take 2 (drop 11 s))) (\<lambda>h.
              Option.bind (parse_nat (take 2 (drop 14 s))) (\<lambda>mi.
              Option.bind (parse_nat (take 2 (drop 17 s))) (\<lambda>sec.
              Option.bind (if frac = [] then Some 0 else parse_nat (tl frac)) (\<lambda>us.
                Some \<lparr>dt_year = y, dt_month = mo, dt_day = dd, dt_hour = h, dt_minute = mi,
                      dt_second = sec, dt_microsecond = us\<rparr>)))))))
         of None \<Rightarrow> Inl (ValueError ''Invalid isoformat string'')
          | Some d \<Rightarrow> if valid_datetime d then Inr d
                      else Inl (ValueError ''datetime field out of range'')))"

section \<open>Constructors and factories\<close>

text \<open>Sequencing of computations that may raise: the first exception is the result.\<close>

definition bind_result :: "py_error + 'a \<Rightarrow> ('a \<Rightarrow> py_error + 'b) \<Rightarrow> py_error + 'b" where
  "bind_result m f = (case m of Inl e \<Rightarrow> Inl e | Inr x \<Rightarrow> f x)"

text \<open>
  Calling \<^verbatim>\<open>data.get\<close> raises \<^verbatim>\<open>AttributeError\<close> on every value of
  \<open>pyval\<close> that is not a dictionary.
\<close>

definition as_dict_attr :: "pyval \<Rightarrow> py_error + pydict" where
  "as_dict_attr v = (case v of PDict d \<Rightarrow> Inr d | _ \<Rightarrow> Inl (AttributeError ''get''))"

text \<open>
  \<^verbatim>\<open>self.id = given_id or str(uuid.uuid4())\<close>. The generator of identifiers is a
  parameter of the model: \<open>uuids k\<close> is the \<open>k\<close>-th identifier drawn, and every
  function that may draw takes the number \<open>n\<close> of identifiers drawn so far and returns
  the new number. An identifier is drawn only when the given one is absent or empty.
\<close>

definition id_or_uuid :: "(nat \<Rightarrow> string) \<Rightarrow> nat \<Rightarrow> string option \<Rightarrow> string \<times> nat" where
  "id_or_uuid uuids n given =
     (case given of None \<Rightarrow> (uuids n, Suc n)
      | Some s \<Rightarrow> if s = [] then (uuids n, Suc n) else (s, n))"

text \<open>
  The constructors, with their parameters in the order of the source. A parameter whose
  default is \<^verbatim>\<open>None\<close> is an option. \<open>now\<close> is the value of
  \<^verbatim>\<open>datetime.now()\<close>, read only when no creation time is given.
\<close>

definition Subtask_init ::
  "(nat \<Rightarrow> string) \<Rightarrow> nat \<Rightarrow> string \<Rightarrow> string \<Rightarrow> bool \<Rightarrow> string option \<Rightarrow> Subtask \<times> nat" where
  "Subtask_init uuids n description parent_task_id done subtask_id =
     (let (i, n1) = id_or_uuid uuids n subtask_id
      in (\<lparr>st_id = i, st_parent_task_id = parent_task_id, st_description = description,
           st_done = done\<rparr>, n1))"

definition Task_init ::
  "(nat \<Rightarrow> string) \<Rightarrow> nat \<Rightarrow> string \<Rightarrow> string \<Rightarrow> string \<Rightarrow> string option \<Rightarrow> bool \<Rightarrow> bool \<Rightarrow>
   Subtask list option \<Rightarrow> bool \<Rightarrow> int option \<Rightarrow> string option \<Rightarrow> Task \<times> nat" where
  "Task_init uuids n task parent_subgoal_id parent_goal_id due started done subtasks counted
       estimated_minutes task_id =
     (let (i, n1) = id_or_uuid uuids n task_id
      in (\<lparr>t_id = i, t_parent_subgoal_id = parent_subgoal_id, t_parent_goal_id = parent_goal_id,
           t_task = task,
           t_due = (case due of None \<Rightarrow> Some ''None''
                    | Some s \<Rightarrow> if s = [] then Some ''None'' else Some s),
           t_started = started, t_done = done,
           t_subtasks = (case subtasks of None \<Rightarrow> [] | Some xs \<Rightarrow> xs),
           t_counted = counted, t_estimated_minutes = estimated_minutes\<rparr>, n1))"

definition Subgoal_init ::
  "(nat \<Rightarrow> string) \<Rightarrow> nat \<Rightarrow> string \<Rightarrow> string \<Rightarrow> int \<Rightarrow> Task list option \<Rightarrow> string \<Rightarrow> string option \<Rightarrow>
   Subgoal \<times> nat" where
  "Subgoal_init uuids n title parent_goal_id level tasks status subgoal_id =
     (let (i, n1) = id_or_uuid uuids n subgoal_id
      in (\<lparr>sg_id = i, sg_parent_goal_id = parent_goal_id, sg_title = title, sg_level = level,
           sg_tasks = (case tasks of None \<Rightarrow> [] | Some xs \<Rightarrow> xs), sg_status = status\<rparr>, n1))"

definition Goal_init ::
  "(nat \<Rightarrow> string) \<Rightarrow> nat \<Rightarrow> datetime \<Rightarrow> string \<Rightarrow> string \<Rightarrow> Subgoal list option \<Rightarrow> string \<Rightarrow> string \<Rightarrow>
   datetime option \<Rightarrow> string option \<Rightarrow> int \<Rightarrow> string \<Rightarrow> Goal \<times> nat" where
  "Goal_init uuids n now title description subgoals status category created_at goal_id
       confidence rationale =
     (let (i, n1) = id_or_uuid uuids n goal_id
      in (\<lparr>g_id = i, g_title = title, g_description = description,
           g_subgoals = (case subgoals of None \<Rightarrow> [] | Some xs \<Rightarrow> xs),
           g_status = status, g_category = category,
           g_created_at = (case created_at of None \<Rightarrow> now | Some d \<Rightarrow> d),
           g_confidence = confidence, g_rationale = rationale\<rparr>, n1))"

text \<open>
  The factories append to the owner's list in place; the model returns the updated owner,
  the new child and the counter of identifiers.
\<close>

definition Task_add_subtask :: "(nat \<Rightarrow> string) \<Rightarrow> nat \<Rightarrow> Task \<Rightarrow> string \<Rightarrow> Task \<times> Subtask \<times> nat" where
  "Task_add_subtask uuids n self description =
     (let (subtask, n1) = Subtask_init uuids n description (t_id self) False None
      in (self\<lparr>t_subtasks := t_subtasks self @ [subtask]\<rparr>, subtask, n1))"

definition Subgoal_add_task ::
  "(nat \<Rightarrow> string) \<Rightarrow> nat \<Rightarrow> Subgoal \<Rightarrow> string \<Rightarrow> string option \<Rightarrow> int option \<Rightarrow> Subgoal \<times> Task \<times> nat" where
  "Subgoal_add_task uuids n self task_description due estimated_minutes =
     (let (task, n1) = Task_init uuids n task_description (sg_id self) (sg_parent_goal_id self)
                         due False False None False estimated_minutes None
      in (self\<lparr>sg_tasks := sg_tasks self @ [task]\<rparr>, task, n1))"

definition Goal_add_subgoal :: "(nat \<Rightarrow> string) \<Rightarrow> nat \<Rightarrow> Goal \<Rightarrow> string \<Rightarrow> int \<Rightarrow> Goal \<times> Subgoal \<times> nat" where
  "Goal_add_subgoal uuids n self title level =
     (let (subgoal, n1) = Subgoal_init uuids n title (g_id self) level None ''active'' None
      in (self\<lparr>g_subgoals := g_subgoals self @ [subgoal]\<rparr>, subgoal, n1))"

section \<open>Export and import\<close>

text \<open>
  \<^verbatim>\<open>to_dict\<close> and \<^verbatim>\<open>from_dict\<close> of the four classes. In each
  \<^verbatim>\<open>from_dict\<close> the children are imported first (the list comprehension is the
  first statement), then the keyword arguments are evaluated in the order written, then the
  constructor runs.
\<close>

definition Subtask_to_dict :: "Subtask \<Rightarrow> pydict" where
  "Subtask_to_dict self =
     [(''id'', PStr (st_id self)),
      (''parent_task_id'', PStr (st_parent_task_id self)),
      (''description'', PStr (st_description self)),
      (''done'', PBool (st_done self))]"

definition Subtask_from_dict :: "(nat \<Rightarrow> string) \<Rightarrow> nat \<Rightarrow> pyval \<Rightarrow> py_error + (Subtask \<times> nat)" where
  "Subtask_from_dict uuids n v =
     bind_result (as_dict v) (\<lambda>data.
     bind_result (dict_item data ''description'') (\<lambda>description.
     bind_result (dict_item data ''parent_task_id'') (\<lambda>parent_task_id.
     let done = dict_get data ''done'' (PBool False);
         subtask_id = dict_get data ''id'' PNone
     in
     bind_result (as_str description) (\<lambda>description.
     bind_result (as_str parent_task_id) (\<lambda>parent_task_id.
     bind_result (as_bool done) (\<lambda>done.
     bind_result (as_opt_str (falsy_to_None subtask_id)) (\<lambda>subtask_id.
       Inr (Subtask_init uuids n description parent_task_id done subtask_id))))))))"

definition Task_to_dict :: "Task \<Rightarrow> pydict" where
  "Task_to_dict self =
     [(''id'', PStr (t_id self)),
      (''parent_subgoal_id'', PStr (t_parent_subgoal_id self)),
      (''parent_goal_id'', PStr (t_parent_goal_id self)),
      (''task'', PStr (t_task self)),
      (''due'', of_opt_str (t_due self)),
      (''started'', PBool (t_started self)),
      (''done'', PBool (t_done self)),
      (''subtasks'', PList (map (\<lambda>st. PDict (Subtask_to_dict st)) (t_subtasks self))),
      (''counted'', PBool (t_counted self)),
      (''estimated_minutes'', of_opt_int (t_estimated_minutes self))]"

definition Task_from_dict :: "(nat \<Rightarrow> string) \<Rightarrow> nat \<Rightarrow> pyval \<Rightarrow> py_error + (Task \<times> nat)" where
  "Task_from_dict uuids n v =
     bind_result (as_dict_attr v) (\<lambda>data.
     bind_result (py_iter (dict_get data ''subtasks'' (PList []))) (\<lambda>sts.
     bind_result (map_result (Subtask_from_dict uuids) n sts) (\<lambda>(subtasks, n1).
     bind_result (dict_item data ''task'') (\<lambda>task.
     bind_result (dict_item data ''parent_subgoal_id'') (\<lambda>parent_subgoal_id.
     bind_result (dict_item data ''parent_goal_id'') (\<lambda>parent_goal_id.
     let due = dict_get data ''due'' PNone;
         started = dict_get data ''started'' (PBool False);
         done = dict_get data ''done'' (PBool False);
         counted = dict_get data ''counted'' (PBool False);
         estimated_minutes = dict_get data ''estimated_minutes'' PNone;
         task_id = dict_get data ''id'' PNone
     in
     bind_result (as_str task) (\<lambda>task.
     bind_result (as_str parent_subgoal_id) (\<lambda>parent_subgoal_id.
     bind_result (as_str parent_goal_id) (\<lambda>parent_goal_id.
     bind_result (as_opt_str (falsy_to_None due)) (\<lambda>due.
     bind_result (as_bool started) (\<lambda>started.
     bind_result (as_bool done) (\<lambda>done.
     bind_result (as_bool counted) (\<lambda>counted.
     bind_result (as_opt_int estimated_minutes) (\<lambda>estimated_minutes.
     bind_result (as_opt_str (falsy_to_None task_id)) (\<lambda>task_id.
       Inr (Task_init uuids n1 task parent_subgoal_id parent_goal_id due started done
              (Some subtasks) counted estimated_minutes task_id))))))))))))))))"

definition Subgoal_to_dict :: "Subgoal \<Rightarrow> pydict" where
  "Subgoal_to_dict self =
     [(''id'', PStr (sg_id self)),
      (''parent_goal_id'', PStr (sg_parent_goal_id self)),
      (''title'', PStr (sg_title self)),
      (''level'', PInt (sg_level self)),
      (''tasks'', PList (map (\<lambda>t. PDict (Task_to_dict t)) (sg_tasks self))),
      (''status'', PStr (sg_status self))]"

definition Subgoal_from_dict :: "(nat \<Rightarrow> string) \<Rightarrow> nat \<Rightarrow> pyval \<Rightarrow> py_error + (Subgoal \<times> nat)" where
  "Subgoal_from_dict uuids n v =
     bind_result (as_dict_attr v) (\<lambda>data.
     bind_result (py_iter (dict_get data ''tasks'' (PList []))) (\<lambda>ts.
     bind_result (map_result (Task_from_dict uuids) n ts) (\<lambda>(tasks, n1).
     bind_result (dict_item data ''title'') (\<lambda>title.
     bind_result (dict_item data ''parent_goal_id'') (\<lambda>parent_goal_id.
     let level = dict_get data ''level'' (PInt 1);
         status = dict_get data ''status'' (PStr ''active'');
         subgoal_id = dict_get data ''id'' PNone
     in
     bind_result (as_str title) (\<lambda>title.
     bind_result (as_str parent_goal_id) (\<lambda>parent_goal_id.
     bind_result (as_int level) (\<lambda>level.
     bind_result (as_str status) (\<lambda>status.
     bind_result (as_opt_str (falsy_to_None subgoal_id)) (\<lambda>subgoal_id.
       Inr (Subgoal_init uuids n1 title parent_goal_id level (Some tasks) status
              subgoal_id)))))))))))"

definition Goal_to_dict :: "Goal \<Rightarrow> pydict" where
  "Goal_to_dict self =
     [(''id'', PStr (g_id self)),
      (''title'', PStr (g_title self)),
      (''description'', PStr (g_description self)),
      (''subgoals'', PList (map (\<lambda>sg. PDict (Subgoal_to_dict sg)) (g_subgoals self))),
      (''status'', PStr (g_status self)),
      (''category'', PStr (g_category self)),
      (''created_at'', PStr (isoformat (g_created_at self))),
      (''confidence'', PInt (g_confidence self)),
      (''rationale'', PStr (g_rationale self))]"

definition Goal_from_dict ::
  "(nat \<Rightarrow> string) \<Rightarrow> nat \<Rightarrow> datetime \<Rightarrow> pyval \<Rightarrow> py_error + (Goal \<times> nat)" where
  "Goal_from_dict uuids n now v =
     bind_result (as_dict_attr v) (\<lambda>data.
     bind_result (py_iter (dict_get data ''subgoals'' (PList []))) (\<lambda>sgs.
     bind_result (map_result (Subgoal_from_dict uuids) n sgs) (\<lambda>(subgoals, n1).
     bind_result
       (case map_of data ''created_at'' of
          None \<Rightarrow> Inr None
        | Some (PStr s) \<Rightarrow> bind_result (fromisoformat s) (\<lambda>d. Inr (Some d))
        | Some _ \<Rightarrow> Inl (TypeError ''fromisoformat: argument must be str'')) (\<lambda>created_at.
     bind_result (dict_item data ''title'') (\<lambda>title.
     let description = dict_get data ''description'' (PStr '''');
         status = dict_get data ''status'' (PStr ''active'');
         category = dict_get data ''category'' (PStr ''Academics'');
         goal_id = dict_get data ''id'' PNone;
         confidence = dict_get data ''confidence'' (PInt 5);
         rationale = dict_get data ''rationale'' (PStr '''')
     in
     bind_result (as_str title) (\<lambda>title.
     bind_result (as_str description) (\<lambda>description.
     bind_result (as_str status) (\<lambda>status.
     bind_result (as_str category) (\<lambda>category.
     bind_result (as_opt_str (falsy_to_None goal_id)) (\<lambda>goal_id.
     bind_result (as_int confidence) (\<lambda>confidence.
     bind_result (as_str rationale) (\<lambda>rationale.
       Inr (Goal_init uuids n1 now title description (Some subgoals) status category
              created_at goal_id confidence rationale)))))))))))))"

text \<open>One legacy record per task, subgoal by subgoal, in order.\<close>

definition flatten_goal_to_legacy_tasks :: "Goal \<Rightarrow> pydict list" where
  "flatten_goal_to_legacy_tasks goal =
     concat (map (\<lambda>subgoal.
       map (\<lambda>task.
         [(''task'', PStr (sg_title subgoal @ '': '' @ t_task task)),
          (''due'', of_opt_str (t_due task)),
          (''started'', PBool (t_started task)),
          (''done'', PBool (t_done task)),
          (''subtasks'', PList (map (\<lambda>st. PStr (st_description st)) (t_subtasks task))),
          (''counted'', PBool (t_counted task)),
          (''_goal_id'', PStr (g_id goal)),
          (''_subgoal_id'', PStr (sg_id subgoal)),
          (''_task_id'', PStr (t_id task))])
         (sg_tasks subgoal))
       (g_subgoals goal))"

text \<open>
  Well-formed entities: what the constructors establish when the generator returns
  non-empty identifiers. Identifiers and due labels are non-empty (an empty one is replaced
  at construction), and the creation time is a valid timestamp.
\<close>

definition wf_subtask :: "Subtask \<Rightarrow> bool" where
  "wf_subtask st = (st_id st \<noteq> [])"

definition wf_task :: "Task \<Rightarrow> bool" where
  "wf_task t = (t_id t \<noteq> [] \<and> t_due t \<noteq> None \<and> t_due t \<noteq> Some [] \<and>
                list_all wf_subtask (t_subtasks t))"

definition wf_subgoal :: "Subgoal \<Rightarrow> bool" where
  "wf_subgoal sg = (sg_id sg \<noteq> [] \<and> list_all wf_task (sg_tasks sg))"

definition wf_goal :: "Goal \<Rightarrow> bool" where
  "wf_goal g = (g_id g \<noteq> [] \<and> valid_datetime (g_created_at g) \<and>
                list_all wf_subgoal (g_subgoals g))"

section \<open>Tree rendering (langgraph_decomposer.py)\<close>

text \<open>
  Strings are byte strings here, so the non-ASCII characters of the source's literals are
  written as their UTF-8 bytes: the box-drawing characters U+251C (tee), U+2514 (corner),
  U+2502 (vertical bar) and U+2500 (horizontal bar), and the four emoji.
\<close>

definition box_tee :: string where
  "box_tee = [CHR 0xE2, CHR 0x94, CHR 0x9C]"

definition box_corner :: string where
  "box_corner = [CHR 0xE2, CHR 0x94, CHR 0x94]"

definition box_vertical :: string where
  "box_vertical = [CHR 0xE2, CHR 0x94, CHR 0x82]"

definition box_horizontal :: string where
  "box_horizontal = [CHR 0xE2, CHR 0x94, CHR 0x80]"

definition emoji_target :: string where
  "emoji_target = [CHR 0xF0, CHR 0x9F, CHR 0x8E, CHR 0xAF]"

definition emoji_diamond :: string where
  "emoji_diamond = [CHR 0xF0, CHR 0x9F, CHR 0x94, CHR 0xB9]"

definition emoji_check :: string where
  "emoji_check = [CHR 0xE2, CHR 0x9C, CHR 0x85]"

definition emoji_square :: string where
  "emoji_square = [CHR 0xE2, CHR 0xAC, CHR 0x9C]"

text \<open>\<^verbatim>\<open>str\<close> of an integer and of an optional integer.\<close>

definition str_int :: "int \<Rightarrow> string" where
  "str_int i = (if i < 0 then ''-'' @ decimal (nat (- i)) else decimal (nat i))"

definition str_opt_int :: "int option \<Rightarrow> string" where
  "str_opt_int x = (case x of None \<Rightarrow> ''None'' | Some i \<Rightarrow> str_int i)"

text \<open>\<^verbatim>\<open>enumerate(xs, 1)\<close>.\<close>

definition enumerate1 :: "'a list \<Rightarrow> (nat \<times> 'a) list" where
  "enumerate1 xs = zip [1..<Suc (length xs)] xs"

text \<open>\<^verbatim>\<open>"\n".join(lines)\<close>.\<close>

fun join_lines :: "string list \<Rightarrow> string" where
  "join_lines [] = []"
| "join_lines [l] = l"
| "join_lines (l # ls) = l @ [CHR 0x0A] @ join_lines ls"

text \<open>
  The three nested loops of \<^verbatim>\<open>visualize_goal_tree\<close>, innermost first. The prefixes
  are the source's literals. The subgoal loop enumerates its index \<open>i\<close> and does not use
  it.
\<close>

definition subtask_prefix :: "bool \<Rightarrow> bool \<Rightarrow> string" where
  "subtask_prefix is_last_task is_last_subtask =
     (if is_last_task
      then (if is_last_subtask then ''     '' @ box_corner @ box_horizontal
            else ''     '' @ box_tee @ box_horizontal)
      else (if is_last_subtask
            then ''  '' @ box_vertical @ ''  '' @ box_vertical @ ''  '' @ box_corner @ box_horizontal
            else ''  '' @ box_vertical @ ''  '' @ box_vertical @ ''  '' @ box_tee @ box_horizontal))"

definition task_prefix :: "bool \<Rightarrow> string" where
  "task_prefix is_last_task =
     (if is_last_task then ''  '' @ box_vertical @ ''  '' @ box_corner @ box_horizontal
      else ''  '' @ box_vertical @ ''  '' @ box_tee @ box_horizontal)"

definition subgoal_prefix :: string where
  "subgoal_prefix = ''  '' @ box_tee @ box_horizontal"

definition subtask_lines :: "bool \<Rightarrow> Task \<Rightarrow> string list" where
  "subtask_lines is_last_task task =
     map (\<lambda>(k, subtask).
            let is_last_subtask = (k = length (t_subtasks task));
                sub_status = (if st_done subtask then emoji_check else emoji_square)
            in subtask_prefix is_last_task is_last_subtask @ '' '' @ sub_status @ '' '' @
               st_description subtask)
         (enumerate1 (t_subtasks task))"

definition task_lines :: "Subgoal \<Rightarrow> string list" where
  "task_lines subgoal =
     concat (map (\<lambda>(j, task).
            let is_last_task = (j = length (sg_tasks subgoal));
                status = (if t_done task then emoji_check else emoji_square)
            in (task_prefix is_last_task @ '' '' @ status @ '' '' @ t_task task @ '' ('' @
                  str_opt_int (t_estimated_minutes task) @ ''min)'')
               # subtask_lines is_last_task task)
         (enumerate1 (sg_tasks subgoal)))"

definition subgoal_lines :: "Goal \<Rightarrow> string list" where
  "subgoal_lines goal =
     concat (map (\<lambda>(i, subgoal).
            (subgoal_prefix @ '' '' @ emoji_diamond @ '' '' @ sg_title subgoal @ '' ('' @
               decimal (length (sg_tasks subgoal)) @ '' tasks)'')
            # task_lines subgoal)
         (enumerate1 (g_subgoals goal)))"

text \<open>
  The header formats a float with \<^verbatim>\<open>:.0f\<close>; that formatting is a parameter
  \<open>fmt\<close> of the model.
\<close>

definition visualize_lines :: "(real \<Rightarrow> string) \<Rightarrow> Goal \<Rightarrow> string list" where
  "visualize_lines fmt goal =
     (emoji_target @ '' '' @ g_title goal @ '' ['' @ fmt (Goal_get_completion_percentage goal) @
        ''% complete]'')
     # subgoal_lines goal"

definition visualize_goal_tree :: "(real \<Rightarrow> string) \<Rightarrow> Goal \<Rightarrow> string" where
  "visualize_goal_tree fmt goal = join_lines (visualize_lines fmt goal)"

section \<open>Decomposition pipeline (langgraph_decomposer.py)\<close>

text \<open>
  The state passed between the nodes. The values taken from a model response are whatever
  \<^verbatim>\<open>json.loads\<close> returned, so they are kept as \<open>pyval\<close>; the cursor starts at
  \<open>0\<close> and is only ever incremented.
\<close>

record DecompositionState =
  ds_goal_text :: string
  ds_category :: string
  ds_user_feedback :: "string list"
  ds_parsed_goal_title :: pyval
  ds_parsed_goal_description :: pyval
  ds_subgoals_list :: pyval
  ds_current_subgoal_index :: nat
  ds_generated_tasks :: pydict
  ds_confidence :: pyval
  ds_rationale :: pyval
  ds_final_goal :: "Goal option"
  ds_error :: string

text \<open>
  What a run depends on and the repository does not define: the completion service, where
  \<open>llm k\<close> is the outcome of the \<open>k\<close>-th call of \<^verbatim>\<open>llm.invoke\<close> in the run (the
  text of \<^verbatim>\<open>resp.content\<close>, or the exception raised); \<^verbatim>\<open>json.loads\<close>; the
  generator of identifiers; and the clock. The prompt is not modelled: building it cannot
  raise, and it reaches the control flow only through the service's answer.
\<close>

record Env =
  llm :: "nat \<Rightarrow> py_error + string"
  json_loads :: "string \<Rightarrow> py_error + pyval"
  uuid4 :: "nat \<Rightarrow> string"
  datetime_now :: datetime

text \<open>\<^verbatim>\<open>str(e)\<close> of a caught exception.\<close>

definition str_exn :: "py_error \<Rightarrow> string" where
  "str_exn e = (case e of KeyError k \<Rightarrow> [CHR 0x27] @ k @ [CHR 0x27] | TypeError m \<Rightarrow> m
     | ValueError m \<Rightarrow> m | IndexError m \<Rightarrow> m | AttributeError m \<Rightarrow> m
     | JSONDecodeError m \<Rightarrow> m | ServiceError m \<Rightarrow> m | OutsideModel m \<Rightarrow> m)"

text \<open>
  \<^verbatim>\<open>raw = resp.content.strip()\<close>, then
  \<^verbatim>\<open>json.loads(raw[raw.index("{"): raw.rindex("}") + 1])\<close>. Stripping removes ASCII
  white space at both ends. \<^verbatim>\<open>index\<close> and \<^verbatim>\<open>rindex\<close> raise
  \<^verbatim>\<open>ValueError\<close> when the character does not occur. A slice whose end is not after
  its start is empty.
\<close>

definition is_space :: "char \<Rightarrow> bool" where
  "is_space c = (c \<in> set [CHR '' '', CHR 0x09, CHR 0x0A, CHR 0x0B, CHR 0x0C, CHR 0x0D,
                            CHR 0x1C, CHR 0x1D, CHR 0x1E, CHR 0x1F])"

definition py_strip :: "string \<Rightarrow> string" where
  "py_strip s = rev (dropWhile is_space (rev (dropWhile is_space s)))"

definition str_index :: "string \<Rightarrow> char \<Rightarrow> py_error + nat" where
  "str_index s c = (if c \<in> set s then Inr (length (takeWhile (\<lambda>x. x \<noteq> c) s))
                    else Inl (ValueError ''substring not found''))"

definition str_rindex :: "string \<Rightarrow> char \<Rightarrow> py_error + nat" where
  "str_rindex s c = (if c \<in> set s
                     then Inr (length s - Suc (length (takeWhile (\<lambda>x. x \<noteq> c) (rev s))))
                     else Inl (ValueError ''substring not found''))"

definition py_slice :: "string \<Rightarrow> nat \<Rightarrow> nat \<Rightarrow> string" where
  "py_slice s i j = take (j - i) (drop i s)"

definition extract_json :: "Env \<Rightarrow> string \<Rightarrow> py_error + pyval" where
  "extract_json env content =
     (let raw = py_strip content
      in bind_result (str_index raw (CHR ''{'')) (\<lambda>i.
         bind_result (str_rindex raw (CHR ''}'')) (\<lambda>j.
           json_loads env (py_slice raw i (j + 1)))))"

text \<open>
  The first three statements of every \<^verbatim>\<open>try\<close> block, up to the first
  \<^verbatim>\<open>data.get\<close>: the \<open>k\<close>-th call of the service, the extraction of the JSON
  text, and the requirement that the decoded value has a \<^verbatim>\<open>get\<close> method. The result
  is the decoded dictionary, or the exception that the \<^verbatim>\<open>except\<close> clause catches.
\<close>

definition llm_data :: "Env \<Rightarrow> nat \<Rightarrow> py_error + pydict" where
  "llm_data env k =
     bind_result (llm env k) (\<lambda>content.
     bind_result (extract_json env content) as_dict_attr)"

text \<open>
  Node 1. It calls the service once and never raises. The assignments of the
  \<^verbatim>\<open>try\<close> block cannot fail once \<open>data\<close> is a dictionary, so the block either
  performs all four or none.
\<close>

definition parse_goal_node :: "Env \<Rightarrow> nat \<Rightarrow> DecompositionState \<Rightarrow> DecompositionState \<times> nat" where
  "parse_goal_node env k state =
     (case llm_data env k of
        Inr data \<Rightarrow>
          (state\<lparr>ds_parsed_goal_title := dict_get data ''title'' (PStr (ds_goal_text state)),
                 ds_parsed_goal_description := dict_get data ''description'' (PStr ''''),
                 ds_confidence := dict_get data ''confidence'' (PInt 0),
                 ds_rationale := dict_get data ''rationale'' (PStr '''')\<rparr>, Suc k)
      | Inl e \<Rightarrow>
          (state\<lparr>ds_parsed_goal_title := PStr (ds_goal_text state),
                 ds_parsed_goal_description := PStr '''',
                 ds_error := ''Parse error: '' @ str_exn e\<rparr>, Suc k))"

text \<open>Node 2. On failure only the stub list and the error note are written.\<close>

definition decompose_to_subgoals_node ::
  "Env \<Rightarrow> nat \<Rightarrow> DecompositionState \<Rightarrow> DecompositionState \<times> nat" where
  "decompose_to_subgoals_node env k state =
     (case llm_data env k of
        Inr data \<Rightarrow>
          (state\<lparr>ds_subgoals_list := dict_get data ''subgoals'' (PList []),
                 ds_current_subgoal_index := 0,
                 ds_generated_tasks := [],
                 ds_confidence := dict_get data ''confidence'' (PInt 0),
                 ds_rationale := dict_get data ''rationale'' (PStr '''')\<rparr>, Suc k)
      | Inl e \<Rightarrow>
          (state\<lparr>ds_subgoals_list := PList [],
                 ds_error := ''Subgoal decomposition error: '' @ str_exn e\<rparr>, Suc k))"

text \<open>
  \<^verbatim>\<open>len(v)\<close>, \<^verbatim>\<open>v[i]\<close> for a non-negative integer \<open>i\<close>, and
  \<^verbatim>\<open>d[k] = v\<close> on a dictionary (an existing key keeps its position).
\<close>

definition py_len :: "pyval \<Rightarrow> py_error + nat" where
  "py_len v = (case v of PList xs \<Rightarrow> Inr (length xs) | PStr s \<Rightarrow> Inr (length s)
     | PDict d \<Rightarrow> Inr (length d) | _ \<Rightarrow> Inl (TypeError ''object has no len()''))"

definition py_index :: "pyval \<Rightarrow> nat \<Rightarrow> py_error + pyval" where
  "py_index v i = (case v of
       PList xs \<Rightarrow> if i < length xs then Inr (xs ! i) else Inl (IndexError ''list index out of range'')
     | PStr s \<Rightarrow> if i < length s then Inr (PStr [s ! i]) else Inl (IndexError ''string index out of range'')
     | PDict d \<Rightarrow> Inl (KeyError (decimal i))
     | _ \<Rightarrow> Inl (TypeError ''object is not subscriptable''))"

definition dict_set :: "pydict \<Rightarrow> string \<Rightarrow> pyval \<Rightarrow> pydict" where
  "dict_set d k v =
     (if k \<in> fst ` set d then map (\<lambda>kv. if fst kv = k then (k, v) else kv) d else d @ [(k, v)])"

text \<open>
  Node 3. The guard, the read of the current stub and its two \<^verbatim>\<open>get\<close> calls stand
  before the \<^verbatim>\<open>try\<close> block, so their exceptions leave the node; a failure of the
  service call or of the decoding is caught and only writes the error note. The service is
  called only past the guard.
\<close>

definition generate_tasks_for_subgoal_node ::
  "Env \<Rightarrow> nat \<Rightarrow> DecompositionState \<Rightarrow> py_error + (DecompositionState \<times> nat)" where
  "generate_tasks_for_subgoal_node env k state =
     bind_result (py_len (ds_subgoals_list state)) (\<lambda>n.
       if ds_current_subgoal_index state \<ge> n then Inr (state, k)
       else
         bind_result (py_index (ds_subgoals_list state) (ds_current_subgoal_index state))
           (\<lambda>current_subgoal.
         bind_result (as_dict_attr current_subgoal) (\<lambda>stub.
           (case llm_data env k of
              Inr data \<Rightarrow>
                (let subgoal_key = ''subgoal_'' @ decimal (ds_current_subgoal_index state)
                 in Inr (state\<lparr>ds_generated_tasks :=
                                   dict_set (ds_generated_tasks state) subgoal_key
                                     (dict_get data ''tasks'' (PList [])),
                                 ds_confidence := dict_get data ''confidence'' (PInt 0),
                                 ds_rationale := dict_get data ''rationale'' (PStr ''''),
                                 ds_current_subgoal_index :=
                                   ds_current_subgoal_index state + 1\<rparr>, Suc k))
            | Inl e \<Rightarrow>
                Inr (state\<lparr>ds_error := ''Task generation error: '' @ str_exn e\<rparr>, Suc k)))))"

definition should_continue_task_generation :: "DecompositionState \<Rightarrow> py_error + string" where
  "should_continue_task_generation state =
     bind_result (py_len (ds_subgoals_list state)) (\<lambda>n.
       if ds_current_subgoal_index state < n then Inr ''continue'' else Inr ''finalize'')"

text \<open>
  Node 4 assembles the goal inside one \<^verbatim>\<open>try\<close> block. In Python the factories
  return the new child, which the owner's list also holds, and the children of the child are
  then added to that shared object; the model adds the children to the returned child and
  puts it back in the last position of the owner's list. Identifiers are drawn in the order
  of the source: the goal's, then for each subgoal its own, then for each task its own
  followed by those of its subtasks.
\<close>

fun add_subtasks :: "(nat \<Rightarrow> string) \<Rightarrow> nat \<Rightarrow> Task \<Rightarrow> pyval list \<Rightarrow> py_error + (Task \<times> nat)" where
  "add_subtasks uuids u task [] = Inr (task, u)"
| "add_subtasks uuids u task (subtask_desc # rest) =
     (case as_str subtask_desc of
        Inl e \<Rightarrow> Inl e
      | Inr d \<Rightarrow>
          (case Task_add_subtask uuids u task d of
             (task1, subtask, u1) \<Rightarrow> add_subtasks uuids u1 task1 rest))"

definition add_task_from_data ::
  "(nat \<Rightarrow> string) \<Rightarrow> nat \<Rightarrow> Subgoal \<Rightarrow> pyval \<Rightarrow> py_error + (Subgoal \<times> nat)" where
  "add_task_from_data uuids u subgoal task_data =
     bind_result (as_dict_attr task_data) (\<lambda>td.
     bind_result (as_str (dict_get td ''task'' (PStr ''Unnamed task''))) (\<lambda>task_description.
     bind_result (as_opt_int (dict_get td ''estimated_minutes'' (PInt 10))) (\<lambda>estimated_minutes.
       (case Subgoal_add_task uuids u subgoal task_description None estimated_minutes of
          (subgoal1, task, u1) \<Rightarrow>
            bind_result (py_iter (dict_get td ''subtasks'' (PList []))) (\<lambda>descs.
            bind_result (add_subtasks uuids u1 task descs) (\<lambda>(task1, u2).
              Inr (subgoal1\<lparr>sg_tasks := butlast (sg_tasks subgoal1) @ [task1]\<rparr>, u2)))))))"

fun add_tasks :: "(nat \<Rightarrow> string) \<Rightarrow> nat \<Rightarrow> Subgoal \<Rightarrow> pyval list \<Rightarrow> py_error + (Subgoal \<times> nat)" where
  "add_tasks uuids u subgoal [] = Inr (subgoal, u)"
| "add_tasks uuids u subgoal (task_data # rest) =
     (case add_task_from_data uuids u subgoal task_data of
        Inl e \<Rightarrow> Inl e
      | Inr (subgoal1, u1) \<Rightarrow> add_tasks uuids u1 subgoal1 rest)"

fun add_subgoals ::
  "(nat \<Rightarrow> string) \<Rightarrow> nat \<Rightarrow> pydict \<Rightarrow> Goal \<Rightarrow> nat \<Rightarrow> pyval list \<Rightarrow> py_error + (Goal \<times> nat)" where
  "add_subgoals uuids u generated goal i [] = Inr (goal, u)"
| "add_subgoals uuids u generated goal i (subgoal_data # rest) =
     (case as_dict_attr subgoal_data of
        Inl e \<Rightarrow> Inl e
      | Inr stub \<Rightarrow>
     (case as_str (dict_get stub ''title'' (PStr (''Subgoal '' @ decimal (i + 1)))) of
        Inl e \<Rightarrow> Inl e
      | Inr title \<Rightarrow>
     (case Goal_add_subgoal uuids u goal title 1 of
        (goal1, subgoal, u1) \<Rightarrow>
     (case py_iter (dict_get generated (''subgoal_'' @ decimal i) (PList [])) of
        Inl e \<Rightarrow> Inl e
      | Inr tasks_data \<Rightarrow>
     (case add_tasks uuids u1 subgoal tasks_data of
        Inl e \<Rightarrow> Inl e
      | Inr (subgoal1, u2) \<Rightarrow>
          add_subgoals uuids u2 generated
            (goal1\<lparr>g_subgoals := butlast (g_subgoals goal1) @ [subgoal1]\<rparr>) (Suc i) rest)))))"

definition build_goal :: "Env \<Rightarrow> DecompositionState \<Rightarrow> py_error + (Goal \<times> nat)" where
  "build_goal env state =
     bind_result (as_str (ds_parsed_goal_title state)) (\<lambda>title.
     bind_result (as_str (ds_parsed_goal_description state)) (\<lambda>description.
     bind_result (as_int (ds_confidence state)) (\<lambda>confidence.
     bind_result (as_str (ds_rationale state)) (\<lambda>rationale.
       (case Goal_init (uuid4 env) 0 (datetime_now env) title description None ''active''
               (ds_category state) None None confidence rationale of
          (goal, u1) \<Rightarrow>
            bind_result (py_iter (ds_subgoals_list state)) (\<lambda>stubs.
              add_subgoals (uuid4 env) u1 (ds_generated_tasks state) goal 0 stubs))))))"

text \<open>
  Every exception of the assembly is caught and becomes the error note, and the final goal
  stays as it was. \<open>OutsideModel\<close> is passed on: it marks a run that stores a value the
  typed records cannot hold.
\<close>

definition finalize_goal_node :: "Env \<Rightarrow> DecompositionState \<Rightarrow> py_error + DecompositionState" where
  "finalize_goal_node env state =
     (case build_goal env state of
        Inr (goal, u) \<Rightarrow> Inr (state\<lparr>ds_final_goal := Some goal\<rparr>)
      | Inl (OutsideModel m) \<Rightarrow> Inl (OutsideModel m)
      | Inl e \<Rightarrow> Inr (state\<lparr>ds_error := ''Finalization error: '' @ str_exn e\<rparr>))"

subsection \<open>The graph\<close>

text \<open>
  The graph of \<^verbatim>\<open>create_decomposition_graph\<close>: three unconditional edges, and after
  \<^verbatim>\<open>generate_tasks\<close> the conditional edge decided by
  \<^verbatim>\<open>should_continue_task_generation\<close>. A configuration is the node to run next, the
  state, and the number of service calls made so far. The source sets no bound on the
  number of node executions.
\<close>

datatype node = ParseGoal | DecomposeToSubgoals | GenerateTasks | Finalize | END

record config =
  cf_node :: node
  cf_state :: DecompositionState
  cf_calls :: nat

definition step :: "Env \<Rightarrow> config \<Rightarrow> py_error + config" where
  "step env c =
     (case cf_node c of
        ParseGoal \<Rightarrow>
          (case parse_goal_node env (cf_calls c) (cf_state c) of
             (s, k) \<Rightarrow> Inr \<lparr>cf_node = DecomposeToSubgoals, cf_state = s, cf_calls = k\<rparr>)
      | DecomposeToSubgoals \<Rightarrow>
          (case decompose_to_subgoals_node env (cf_calls c) (cf_state c) of
             (s, k) \<Rightarrow> Inr \<lparr>cf_node = GenerateTasks, cf_state = s, cf_calls = k\<rparr>)
      | GenerateTasks \<Rightarrow>
          bind_result (generate_tasks_for_subgoal_node env (cf_calls c) (cf_state c)) (\<lambda>(s, k).
          bind_result (should_continue_task_generation s) (\<lambda>edge.
            Inr \<lparr>cf_node = (if edge = ''continue'' then GenerateTasks else Finalize),
                 cf_state = s, cf_calls = k\<rparr>))
      | Finalize \<Rightarrow>
          bind_result (finalize_goal_node env (cf_state c)) (\<lambda>s.
            Inr \<lparr>cf_node = END, cf_state = s, cf_calls = cf_calls c\<rparr>)
      | END \<Rightarrow> Inr c)"

text \<open>\<open>steps env m c\<close> executes \<open>m\<close> nodes from \<open>c\<close>.\<close>

fun steps :: "Env \<Rightarrow> nat \<Rightarrow> config \<Rightarrow> py_error + config" where
  "steps env 0 c = Inr c"
| "steps env (Suc m) c = (case step env c of Inl e \<Rightarrow> Inl e | Inr c1 \<Rightarrow> steps env m c1)"

text \<open>
  \<^verbatim>\<open>graph.invoke\<close>: nodes are executed until \<^verbatim>\<open>END\<close>. The run may not end, so it
  is given fuel, the number of nodes it may execute; \<open>OutOfFuel\<close> means that the run has
  not reached \<^verbatim>\<open>END\<close> within that number.
\<close>

datatype 'a run_result = Raised py_error | OutOfFuel | Done 'a

fun graph_invoke :: "Env \<Rightarrow> nat \<Rightarrow> config \<Rightarrow> DecompositionState run_result" where
  "graph_invoke env 0 c = (if cf_node c = END then Done (cf_state c) else OutOfFuel)"
| "graph_invoke env (Suc fuel) c =
     (if cf_node c = END then Done (cf_state c)
      else (case step env c of Inl e \<Rightarrow> Raised e | Inr c1 \<Rightarrow> graph_invoke env fuel c1))"

definition initial_state :: "string \<Rightarrow> string \<Rightarrow> string list \<Rightarrow> DecompositionState" where
  "initial_state goal_text category user_feedback =
     \<lparr>ds_goal_text = goal_text, ds_category = category, ds_user_feedback = user_feedback,
      ds_parsed_goal_title = PStr '''', ds_parsed_goal_description = PStr '''',
      ds_subgoals_list = PList [], ds_current_subgoal_index = 0, ds_generated_tasks = [],
      ds_confidence = PInt 5, ds_rationale = PStr '''', ds_final_goal = None,
      ds_error = ''''\<rparr>"

definition initial_config :: "string \<Rightarrow> string \<Rightarrow> string list \<Rightarrow> config" where
  "initial_config goal_text category user_feedback =
     \<lparr>cf_node = ParseGoal, cf_state = initial_state goal_text category user_feedback,
      cf_calls = 0\<rparr>"

definition decompose_goal_with_langgraph ::
  "Env \<Rightarrow> nat \<Rightarrow> string \<Rightarrow> string \<Rightarrow> string list \<Rightarrow> Goal option run_result" where
  "decompose_goal_with_langgraph env fuel goal_text category user_feedback =
     (case graph_invoke env fuel (initial_config goal_text category user_feedback) of
        Raised e \<Rightarrow> Raised e
      | OutOfFuel \<Rightarrow> OutOfFuel
      | Done result \<Rightarrow> Done (ds_final_goal result))"

text \<open>The set of categories named by the specification.\<close>

definition allowed_categories :: "string set" where
  "allowed_categories = {''Academics'', ''Personal'', ''Hobbies'', ''Future/Long-term Goals''}"

text \<open>
  Notions used to state the properties of the loop: a stub is a dictionary; \<open>call_ok\<close>
  says that the \<open>k\<close>-th service call returns text that decodes to a dictionary;
  \<open>call_tasks\<close> is the task list of that response (the value under \<^verbatim>\<open>tasks\<close>, or
  the empty list); \<open>stored_tasks env k j\<close> is the dictionary holding, for each \<open>i < j\<close>
  in order, the task list of call \<open>k + i\<close> under the key \<^verbatim>\<open>subgoal_i\<close>.
\<close>

definition is_dict :: "pyval \<Rightarrow> bool" where
  "is_dict v = (case v of PDict d \<Rightarrow> True | _ \<Rightarrow> False)"

definition call_tasks :: "Env \<Rightarrow> nat \<Rightarrow> pyval" where
  "call_tasks env k =
     (case llm_data env k of Inr data \<Rightarrow> dict_get data ''tasks'' (PList []) | Inl e \<Rightarrow> PList [])"

definition call_ok :: "Env \<Rightarrow> nat \<Rightarrow> bool" where
  "call_ok env k = (case llm_data env k of Inr data \<Rightarrow> True | Inl e \<Rightarrow> False)"

definition stored_tasks :: "Env \<Rightarrow> nat \<Rightarrow> nat \<Rightarrow> pydict" where
  "stored_tasks env k j = map (\<lambda>i. (''subgoal_'' @ decimal i, call_tasks env (k + i))) [0..<j]"

text \<open>
  The state that reaches the task-generation node: the initial state of the entry point
  after the parse node (call \<open>0\<close>) and the subgoal-split node (call \<open>1\<close>).
\<close>

definition split_state :: "Env \<Rightarrow> string \<Rightarrow> string \<Rightarrow> string list \<Rightarrow> DecompositionState" where
  "split_state env goal_text category user_feedback =
     fst (decompose_to_subgoals_node env 1
            (fst (parse_goal_node env 0 (initial_state goal_text category user_feedback))))"

text \<open>
  The invariant of a run for the category: the state carries the category given at the
  entry, and so does the final goal once there is one.
\<close>

definition category_kept :: "string \<Rightarrow> DecompositionState \<Rightarrow> bool" where
  "category_kept cat s =
     (ds_category s = cat \<and> (case ds_final_goal s of None \<Rightarrow> True | Some g \<Rightarrow> g_category g = cat))"

section \<open>Example values\<close>

definition ex_task :: "bool \<Rightarrow> bool list \<Rightarrow> Task" where
  "ex_task d ds = \<lparr>t_id = ''t1'', t_parent_subgoal_id = ''s1'', t_parent_goal_id = ''g1'',
     t_task = ''read'', t_due = Some ''None'', t_started = False, t_done = d,
     t_subtasks = map (\<lambda>b. \<lparr>st_id = ''x'', st_parent_task_id = ''t1'', st_description = ''step'', st_done = b\<rparr>) ds,
     t_counted = False, t_estimated_minutes = Some 10\<rparr>"

definition ex_subgoal :: "Task list \<Rightarrow> Subgoal" where
  "ex_subgoal ts = \<lparr>sg_id = ''s1'', sg_parent_goal_id = ''g1'', sg_title = ''phase'', sg_level = 1,
     sg_tasks = ts, sg_status = ''paused''\<rparr>"

definition ex_goal :: "Subgoal list \<Rightarrow> Goal" where
  "ex_goal sgs = \<lparr>g_id = ''g1'', g_title = ''goal'', g_description = '''', g_subgoals = sgs,
     g_status = ''paused'', g_category = ''Academics'',
     g_created_at = \<lparr>dt_year = 2025, dt_month = 1, dt_day = 2, dt_hour = 3, dt_minute = 4,
        dt_second = 5, dt_microsecond = 0\<rparr>,
     g_confidence = 5, g_rationale = ''''\<rparr>"

definition ex_uuids :: "nat \<Rightarrow> string" where
  "ex_uuids k = ''uuid-'' @ decimal k"

definition ex_subtask :: Subtask where
  "ex_subtask = \<lparr>st_id = ''st-1'', st_parent_task_id = ''t-1'', st_description = ''open book'',
     st_done = True\<rparr>"

definition ex_task2 :: Task where
  "ex_task2 = \<lparr>t_id = ''t-1'', t_parent_subgoal_id = ''sg-1'', t_parent_goal_id = ''g-1'',
     t_task = ''read chapter'', t_due = Some ''Friday'', t_started = True, t_done = False,
     t_subtasks = [ex_subtask], t_counted = False, t_estimated_minutes = None\<rparr>"

definition ex_subgoal2 :: Subgoal where
  "ex_subgoal2 = \<lparr>sg_id = ''sg-1'', sg_parent_goal_id = ''g-1'', sg_title = ''Review'',
     sg_level = 1, sg_tasks = [ex_task2], sg_status = ''paused''\<rparr>"

definition ex_goal2 :: Goal where
  "ex_goal2 = \<lparr>g_id = ''g-1'', g_title = ''Exam'', g_description = ''pass'',
     g_subgoals = [ex_subgoal2], g_status = ''archived'', g_category = ''Hobbies'',
     g_created_at = \<lparr>dt_year = 2024, dt_month = 2, dt_day = 29, dt_hour = 23, dt_minute = 5,
        dt_second = 9, dt_microsecond = 1500\<rparr>,
     g_confidence = 8, g_rationale = ''clear''\<rparr>"

definition ex_task_dict :: "pyval \<Rightarrow> pydict" where
  "ex_task_dict d = [(''task'', PStr ''read''), (''parent_subgoal_id'', PStr ''sg-1''),
     (''parent_goal_id'', PStr ''g-1''), (''due'', d)]"

definition ex_imported_task :: Task where
  "ex_imported_task = \<lparr>t_id = ''uuid-0'', t_parent_subgoal_id = ''sg-1'', t_parent_goal_id = ''g-1'',
     t_task = ''read'', t_due = Some ''None'', t_started = False, t_done = False,
     t_subtasks = [], t_counted = False, t_estimated_minutes = None\<rparr>"

definition ex_goal3 :: Goal where
  "ex_goal3 = ex_goal [ex_subgoal [], ex_subgoal [ex_task False [False, True], ex_task True [True]]]"

definition ex_dq :: string where
  "ex_dq = [CHR 0x22]"

definition ex_split_text :: string where
  "ex_split_text =
     ''{'' @ ex_dq @ ''subgoals'' @ ex_dq @ '': [{'' @ ex_dq @ ''title'' @ ex_dq @ '': '' @ ex_dq @
     ''Review'' @ ex_dq @ ''}, {'' @ ex_dq @ ''title'' @ ex_dq @ '': '' @ ex_dq @ ''Practice'' @
     ex_dq @ ''}]}''"

definition ex_stubs :: "pyval list" where
  "ex_stubs = [PDict [(''title'', PStr ''Review'')], PDict [(''title'', PStr ''Practice'')]]"

definition ex_loads :: "string \<Rightarrow> py_error + pyval" where
  "ex_loads s =
     (if s = ''{}'' then Inr (PDict [])
      else if s = ex_split_text then Inr (PDict [(''subgoals'', PList ex_stubs)])
      else Inl (JSONDecodeError ''Expecting property name enclosed in double quotes''))"

definition ex_env :: "(nat \<Rightarrow> py_error + string) \<Rightarrow> Env" where
  "ex_env l = \<lparr>llm = l, json_loads = ex_loads, uuid4 = ex_uuids,
               datetime_now = g_created_at ex_goal2\<rparr>"

definition ex_llm_ok :: "nat \<Rightarrow> py_error + string" where
  "ex_llm_ok k =
     (if k = 0 then Inr ''I cannot help with that.''
      else if k = 1 then Inr (''Here you go: '' @ ex_split_text @ ''  '')
      else Inr '' {} '')"

definition ex_llm_fail :: "nat \<Rightarrow> py_error + string" where
  "ex_llm_fail k =
     (if k = 1 then Inr ex_split_text else Inl (ServiceError ''429 quota exceeded''))"

definition ex_llm_bad :: "nat \<Rightarrow> py_error + string" where
  "ex_llm_bad k = Inr ''{not json}''"

definition ex_llm_down :: "nat \<Rightarrow> py_error + string" where
  "ex_llm_down k = Inl (ServiceError ''connection refused'')"

definition ex_config_fail :: config where
  "ex_config_fail =
     \<lparr>cf_node = GenerateTasks,
      cf_state = split_state (ex_env ex_llm_fail) ''Prepare for exam'' ''Academics'' [],
      cf_calls = 2\<rparr>"

definition ex_tasks_text :: string where
  "ex_tasks_text =
     ''{'' @ ex_dq @ ''tasks'' @ ex_dq @ '': [{'' @ ex_dq @ ''task'' @ ex_dq @ '': '' @ ex_dq @
     ''Read'' @ ex_dq @ '', '' @ ex_dq @ ''estimated_minutes'' @ ex_dq @ '': 15, '' @ ex_dq @
     ''subtasks'' @ ex_dq @ '': ['' @ ex_dq @ ''open book'' @ ex_dq @ '']}], '' @ ex_dq @
     ''confidence'' @ ex_dq @ '': 8}''"

definition ex_loads_full :: "string \<Rightarrow> py_error + pyval" where
  "ex_loads_full s =
     (if s = ex_tasks_text
      then Inr (PDict [(''tasks'', PList [PDict [(''task'', PStr ''Read''),
                                                 (''estimated_minutes'', PInt 15),
                                                 (''subtasks'', PList [PStr ''open book''])]]),
                       (''confidence'', PInt 8)])
      else ex_loads s)"

definition ex_env_full :: Env where
  "ex_env_full =
     \<lparr>llm = (\<lambda>k. if k = 0 then Inr ''I cannot help with that.''
                  else if k = 1 then Inr ex_split_text
                  else Inr (''Sure! '' @ ex_tasks_text)),
      json_loads = ex_loads_full, uuid4 = ex_uuids, datetime_now = g_created_at ex_goal2\<rparr>"

definition ex_final_goal :: Goal where
  "ex_final_goal =
     \<lparr>g_id = ''uuid-0'', g_title = ''Prepare for exam'', g_description = '''',
      g_subgoals =
        [\<lparr>sg_id = ''uuid-1'', sg_parent_goal_id = ''uuid-0'', sg_title = ''Review'', sg_level = 1,
          sg_tasks =
            [\<lparr>t_id = ''uuid-2'', t_parent_subgoal_id = ''uuid-1'', t_parent_goal_id = ''uuid-0'',
              t_task = ''Read'', t_due = Some ''None'', t_started = False, t_done = False,
              t_subtasks = [\<lparr>st_id = ''uuid-3'', st_parent_task_id = ''uuid-2'',
                              st_description = ''open book'', st_done = False\<rparr>],
              t_counted = False, t_estimated_minutes = Some 15\<rparr>],
          sg_status = ''active''\<rparr>,
         \<lparr>sg_id = ''uuid-4'', sg_parent_goal_id = ''uuid-0'', sg_title = ''Practice'', sg_level = 1,
          sg_tasks =
            [\<lparr>t_id = ''uuid-5'', t_parent_subgoal_id = ''uuid-4'', t_parent_goal_id = ''uuid-0'',
              t_task = ''Read'', t_due = Some ''None'', t_started = False, t_done = False,
              t_subtasks = [\<lparr>st_id = ''uuid-6'', st_parent_task_id = ''uuid-5'',
                              st_description = ''open book'', st_done = False\<rparr>],
              t_counted = False, t_estimated_minutes = Some 15\<rparr>],
          sg_status = ''active''\<rparr>],
      g_status = ''active'', g_category = ''Academics'',
      g_created_at = g_created_at ex_goal2, g_confidence = 8, g_rationale = ''''\<rparr>"

section \<open>Completion and status roll-up: theorems\<close>

text \<open>
  C5. \<^verbatim>\<open>Task.get_completion_percentage\<close> returns 100 for a done task without
  subtasks, 0 for a task that is not done and has no subtasks, and otherwise one hundred
  times the fraction of subtasks whose \<^verbatim>\<open>done\<close> flag is set; with subtasks
  present, the task's own \<^verbatim>\<open>done\<close> flag does not change the result.
\<close>

theorem Task_get_completion_percentage_cases:
  "(t_subtasks t = [] \<and> t_done t \<longrightarrow> Task_get_completion_percentage t = 100) \<and>
   (t_subtasks t = [] \<and> \<not> t_done t \<longrightarrow> Task_get_completion_percentage t = 0) \<and>
   (t_subtasks t \<noteq> [] \<longrightarrow>
      Task_get_completion_percentage t =
        100 * (real (length (filter st_done (t_subtasks t))) / real (length (t_subtasks t))) \<and>
      Task_get_completion_percentage (t\<lparr>t_done := b\<rparr>) = Task_get_completion_percentage t)"
  by (simp add: Task_get_completion_percentage_def)

theorem Task_get_completion_percentage_witness:
  "Task_get_completion_percentage (ex_task True []) = 100 \<and>
   Task_get_completion_percentage (ex_task False []) = 0 \<and>
   Task_get_completion_percentage (ex_task True [True, False, False, False]) = 25 \<and>
   Task_get_completion_percentage (ex_task False [True, False, False, False]) = 25"
  using Task_get_completion_percentage_cases [of "ex_task True []"]
    Task_get_completion_percentage_cases [of "ex_task False []"]
    Task_get_completion_percentage_cases [of "ex_task True [True, False, False, False]" False]
  by (simp add: ex_task_def)

text \<open>
  C6. \<^verbatim>\<open>Subgoal.get_completion_percentage\<close> returns 0 without tasks and
  otherwise one hundred times the fraction of tasks whose own \<^verbatim>\<open>done\<close> flag is
  set. The subtasks of the tasks contribute nothing: replacing every task's subtask list
  by any other leaves the result unchanged.
\<close>

theorem Subgoal_get_completion_percentage_cases:
  "(sg_tasks sg = [] \<longrightarrow> Subgoal_get_completion_percentage sg = 0) \<and>
   (sg_tasks sg \<noteq> [] \<longrightarrow>
      Subgoal_get_completion_percentage sg =
        100 * (real (length (filter t_done (sg_tasks sg))) / real (length (sg_tasks sg)))) \<and>
   Subgoal_get_completion_percentage
       (sg\<lparr>sg_tasks := map (\<lambda>t. t\<lparr>t_subtasks := f t\<rparr>) (sg_tasks sg)\<rparr>) =
     Subgoal_get_completion_percentage sg"
  by (simp add: Subgoal_get_completion_percentage_def filter_map comp_def)

theorem Subgoal_get_completion_percentage_witness:
  "Subgoal_get_completion_percentage (ex_subgoal []) = 0 \<and>
   Task_get_completion_percentage (ex_task False [True, True, True, True, False]) = 80 \<and>
   Subgoal_get_completion_percentage
     (ex_subgoal [ex_task False [True, True, True, True, False]]) = 0 \<and>
   Subgoal_get_completion_percentage
     (ex_subgoal [ex_task True [False], ex_task False [True]]) = 50"
  using Subgoal_get_completion_percentage_cases [of "ex_subgoal []"]
    Subgoal_get_completion_percentage_cases [of "ex_subgoal [ex_task False [True, True, True, True, False]]"]
    Subgoal_get_completion_percentage_cases [of "ex_subgoal [ex_task True [False], ex_task False [True]]"]
  by (simp add: ex_subgoal_def ex_task_def Task_get_completion_percentage_def)

lemma Subgoal_update_status_status:
  "sg_status (Subgoal_update_status sg) =
     (if sg_tasks sg \<noteq> [] \<and> list_all t_done (sg_tasks sg) then ''completed'' else ''active'')"
  by (simp add: Subgoal_update_status_def)

lemma Subgoal_update_status_tasks:
  "sg_tasks (Subgoal_update_status sg) = sg_tasks sg"
  by (simp add: Subgoal_update_status_def)

lemma list_all_updated_completed:
  "list_all (\<lambda>sg. sg_status sg = ''completed'') (map Subgoal_update_status sgs) =
     list_all (\<lambda>sg. sg_tasks sg \<noteq> [] \<and> list_all t_done (sg_tasks sg)) sgs"
  by (induction sgs) (simp_all add: Subgoal_update_status_status)

text \<open>
  C7, as stated, fails where a subgoal has no task: of the two subgoals below the first
  holds one done task and the second holds none, so every leaf task of the goal is done,
  and \<^verbatim>\<open>update_status\<close> leaves the goal \<^verbatim>\<open>active\<close>.
\<close>

theorem Goal_update_status_counterexample:
  "all_leaf_tasks_done (ex_goal [ex_subgoal [ex_task True []], ex_subgoal []]) \<and>
   g_status (Goal_update_status (ex_goal [ex_subgoal [ex_task True []], ex_subgoal []])) = ''active'' \<and>
   g_status (Goal_update_status (ex_goal [ex_subgoal [ex_task True []], ex_subgoal []])) \<noteq> ''completed''"
  by (simp add: all_leaf_tasks_done_def ex_goal_def ex_subgoal_def ex_task_def
      Goal_update_status_def Subgoal_update_status_def)

text \<open>
  C7, amended. \<^verbatim>\<open>Subgoal.update_status\<close> stores \<^verbatim>\<open>completed\<close> when the
  subgoal has at least one task and all its tasks are done, and \<^verbatim>\<open>active\<close>
  otherwise. \<^verbatim>\<open>Goal.update_status\<close> recomputes every child subgoal, then stores
  \<^verbatim>\<open>completed\<close> when the goal has at least one subgoal and every recomputed
  subgoal is \<^verbatim>\<open>completed\<close>, and \<^verbatim>\<open>active\<close> otherwise. Neither ever stores
  \<^verbatim>\<open>paused\<close>. A goal with at least one subgoal, whose every subgoal has at least
  one task and whose every task is done, ends \<^verbatim>\<open>completed\<close>.
\<close>

theorem update_status_derived:
  "sg_status (Subgoal_update_status sg) =
     (if sg_tasks sg \<noteq> [] \<and> list_all t_done (sg_tasks sg) then ''completed'' else ''active'') \<and>
   g_subgoals (Goal_update_status g) = map Subgoal_update_status (g_subgoals g) \<and>
   g_status (Goal_update_status g) =
     (if g_subgoals g \<noteq> [] \<and>
         list_all (\<lambda>sg. sg_status sg = ''completed'') (map Subgoal_update_status (g_subgoals g))
      then ''completed'' else ''active'') \<and>
   sg_status (Subgoal_update_status sg) \<noteq> ''paused'' \<and>
   g_status (Goal_update_status g) \<noteq> ''paused'' \<and>
   (g_subgoals g \<noteq> [] \<and> list_all (\<lambda>sg. sg_tasks sg \<noteq> []) (g_subgoals g) \<and>
      all_leaf_tasks_done g \<longrightarrow> g_status (Goal_update_status g) = ''completed'')"
proof -
  have a: "list_all (\<lambda>sg. sg_tasks sg \<noteq> []) sgs \<Longrightarrow>
        list_all (\<lambda>sg. list_all t_done (sg_tasks sg)) sgs \<Longrightarrow>
        list_all (\<lambda>sg. sg_tasks sg \<noteq> [] \<and> list_all t_done (sg_tasks sg)) sgs" for sgs
    by (induction sgs) simp_all
  show ?thesis
    using a [of "g_subgoals g"]
    by (simp add: Subgoal_update_status_status Goal_update_status_def Let_def
        list_all_updated_completed all_leaf_tasks_done_def)
qed

theorem update_status_derived_witness:
  "g_status (Goal_update_status (ex_goal [ex_subgoal [ex_task True [False]], ex_subgoal [ex_task True []]])) = ''completed'' \<and>
   g_status (Goal_update_status (ex_goal [ex_subgoal [ex_task True []], ex_subgoal [ex_task False []]])) = ''active'' \<and>
   map sg_status (g_subgoals (Goal_update_status (ex_goal [ex_subgoal [ex_task True []], ex_subgoal [ex_task False []]]))) = [''completed'', ''active'']"
  using update_status_derived [of "ex_subgoal []" "ex_goal [ex_subgoal [ex_task True [False]], ex_subgoal [ex_task True []]]"]
    update_status_derived [of "ex_subgoal []" "ex_goal [ex_subgoal [ex_task True []], ex_subgoal [ex_task False []]]"]
  by (simp add: all_leaf_tasks_done_def ex_goal_def ex_subgoal_def ex_task_def Subgoal_update_status_def)

section \<open>Decimal numerals and timestamps: reading back what was written\<close>

lemma digit_val_digit_char: "d < 10 \<Longrightarrow> digit_val (digit_char d) = Some d"
proof -
  assume "d < 10"
  then have "d \<in> {0,1,2,3,4,5,6,7,8,9}" by auto
  then show ?thesis
    by (auto simp: digit_val_def digit_char_def)
qed

lemma parse_nat_acc_append:
  "parse_nat_acc acc (xs @ ys) =
     (case parse_nat_acc acc xs of None \<Rightarrow> None | Some a \<Rightarrow> parse_nat_acc a ys)"
  by (induction xs arbitrary: acc) (auto split: option.splits)

lemma parse_nat_acc_decimal:
  "parse_nat_acc acc (decimal n) = Some (acc * 10 ^ length (decimal n) + n)"
proof (induction n arbitrary: acc rule: decimal.induct)
  case (1 n)
  show ?case
  proof (cases "n < 10")
    case True
    then show ?thesis
      by (subst (1 2) decimal.simps) (simp add: digit_val_digit_char)
  next
    case False
    have d: "decimal n = decimal (n div 10) @ [digit_char (n mod 10)]"
      using False by (subst decimal.simps) simp
    show ?thesis
      using False "1.IH" [OF False, of acc]
      by (simp add: d parse_nat_acc_append digit_val_digit_char algebra_simps)
  qed
qed

lemma parse_nat_acc_zeros:
  "parse_nat_acc 0 (replicate k (CHR ''0'') @ s) = parse_nat_acc 0 s"
  by (induction k) (simp_all add: digit_val_def)

lemma decimal_nonempty: "decimal n \<noteq> []"
  by (subst decimal.simps) simp

lemma parse_nat_zpad: "parse_nat (zpad w n) = Some n"
  by (simp add: parse_nat_def zpad_def parse_nat_acc_zeros parse_nat_acc_decimal decimal_nonempty)

lemma length_decimal_le: "n < 10 ^ k \<Longrightarrow> 0 < k \<Longrightarrow> length (decimal n) \<le> k"
proof (induction k arbitrary: n)
  case 0
  then show ?case by simp
next
  case (Suc k)
  show ?case
  proof (cases "n < 10")
    case True
    then show ?thesis by (subst decimal.simps) simp
  next
    case False
    then have k: "0 < k" using Suc.prems by (cases k) auto
    have "n div 10 < 10 ^ k" using Suc.prems by (simp add: less_mult_imp_div_less mult.commute)
    from Suc.IH [OF this k] False show ?thesis
      by (subst decimal.simps) simp
  qed
qed

lemma length_zpad: "n < 10 ^ w \<Longrightarrow> 0 < w \<Longrightarrow> length (zpad w n) = w"
  using length_decimal_le [of n w] by (simp add: zpad_def)

lemma fromisoformat_pieces:
  assumes "length a = 4" "length b = 2" "length c = 2" "length h = 2" "length m = 2" "length e = 2"
    and "f = [] \<or> (length f = 7 \<and> hd f = CHR ''.'')"
  shows "fromisoformat (a @ ''-'' @ b @ ''-'' @ c @ ''T'' @ h @ '':'' @ m @ '':'' @ e @ f) =
     (case Option.bind (parse_nat a) (\<lambda>y.
              Option.bind (parse_nat b) (\<lambda>mo.
              Option.bind (parse_nat c) (\<lambda>dd.
              Option.bind (parse_nat h) (\<lambda>hh.
              Option.bind (parse_nat m) (\<lambda>mi.
              Option.bind (parse_nat e) (\<lambda>sec.
              Option.bind (if f = [] then Some 0 else parse_nat (tl f)) (\<lambda>us.
                Some \<lparr>dt_year = y, dt_month = mo, dt_day = dd, dt_hour = hh, dt_minute = mi,
                      dt_second = sec, dt_microsecond = us\<rparr>)))))))
         of None \<Rightarrow> Inl (ValueError ''Invalid isoformat string'')
          | Some d \<Rightarrow> if valid_datetime d then Inr d
                      else Inl (ValueError ''datetime field out of range''))"
  using assms by (auto simp add: fromisoformat_def nth_append Let_def)

lemma fromisoformat_isoformat:
  assumes "valid_datetime d"
  shows "fromisoformat (isoformat d) = Inr d"
proof -
  have l: "length (zpad 4 (dt_year d)) = 4" "length (zpad 2 (dt_month d)) = 2"
    "length (zpad 2 (dt_day d)) = 2" "length (zpad 2 (dt_hour d)) = 2"
    "length (zpad 2 (dt_minute d)) = 2" "length (zpad 2 (dt_second d)) = 2"
    "length (zpad 6 (dt_microsecond d)) = 6"
    using assms by (auto simp: valid_datetime_def days_in_month_def intro!: length_zpad split: if_splits)
  show ?thesis
    unfolding isoformat_def
    by (subst fromisoformat_pieces) (use l assms in \<open>auto simp add: parse_nat_zpad valid_datetime_def\<close>)
qed

section \<open>Export and import: the round trip\<close>

lemmas conv_defs = bind_result_def as_dict_def as_dict_attr_def dict_item_def dict_get_def
  as_str_def as_bool_def as_int_def as_opt_str_def as_opt_int_def falsy_to_None_def truthy_def
  of_opt_str_def of_opt_int_def py_iter_def id_or_uuid_def

lemma Subtask_roundtrip:
  "wf_subtask st \<Longrightarrow> Subtask_from_dict uuids n (PDict (Subtask_to_dict st)) = Inr (st, n)"
  by (simp add: wf_subtask_def Subtask_from_dict_def Subtask_to_dict_def Subtask_init_def conv_defs)

lemma map_result_roundtrip:
  assumes "\<And>x n. x \<in> set xs \<Longrightarrow> f n (g x) = Inr (x, n)"
  shows "map_result f n (map g xs) = Inr (xs, n)"
  using assms by (induction xs arbitrary: n) simp_all

lemma Task_roundtrip:
  assumes "wf_task t"
  shows "Task_from_dict uuids n (PDict (Task_to_dict t)) = Inr (t, n)"
proof -
  have sts: "map_result (Subtask_from_dict uuids) n
               (map (\<lambda>st. PDict (Subtask_to_dict st)) (t_subtasks t)) = Inr (t_subtasks t, n)"
    using assms by (intro map_result_roundtrip Subtask_roundtrip) (simp add: wf_task_def list_all_iff)
  obtain d where d: "t_due t = Some d" "d \<noteq> []"
    using assms by (cases "t_due t") (auto simp: wf_task_def)
  show ?thesis
    using assms sts d
    by (simp add: wf_task_def Task_from_dict_def Task_to_dict_def Task_init_def conv_defs
        split: option.splits)
qed

lemma Subgoal_roundtrip:
  assumes "wf_subgoal sg"
  shows "Subgoal_from_dict uuids n (PDict (Subgoal_to_dict sg)) = Inr (sg, n)"
proof -
  have ts: "map_result (Task_from_dict uuids) n
               (map (\<lambda>t. PDict (Task_to_dict t)) (sg_tasks sg)) = Inr (sg_tasks sg, n)"
    using assms by (intro map_result_roundtrip Task_roundtrip) (simp add: wf_subgoal_def list_all_iff)
  show ?thesis
    using assms ts
    by (simp add: wf_subgoal_def Subgoal_from_dict_def Subgoal_to_dict_def Subgoal_init_def conv_defs)
qed

lemma Goal_roundtrip:
  assumes "wf_goal g"
  shows "Goal_from_dict uuids n now (PDict (Goal_to_dict g)) = Inr (g, n)"
proof -
  have sgs: "map_result (Subgoal_from_dict uuids) n
               (map (\<lambda>sg. PDict (Subgoal_to_dict sg)) (g_subgoals g)) = Inr (g_subgoals g, n)"
    using assms by (intro map_result_roundtrip Subgoal_roundtrip) (simp add: wf_goal_def list_all_iff)
  have dt: "fromisoformat (isoformat (g_created_at g)) = Inr (g_created_at g)"
    using assms by (simp add: wf_goal_def fromisoformat_isoformat)
  show ?thesis
    using assms sgs dt
    by (simp add: wf_goal_def Goal_from_dict_def Goal_to_dict_def Goal_init_def conv_defs)
qed

lemma id_or_uuid_nonempty:
  "uuids n \<noteq> [] \<Longrightarrow> fst (id_or_uuid uuids n x) \<noteq> []"
  by (simp add: id_or_uuid_def split: option.splits)

lemma Subtask_init_wf:
  "uuids n \<noteq> [] \<Longrightarrow> wf_subtask (fst (Subtask_init uuids n d p dn sid))"
  by (simp add: Subtask_init_def wf_subtask_def id_or_uuid_def split: option.splits)

lemma Task_init_wf:
  "uuids n \<noteq> [] \<Longrightarrow> list_all wf_subtask (case sts of None \<Rightarrow> [] | Some xs \<Rightarrow> xs) \<Longrightarrow>
     wf_task (fst (Task_init uuids n task psid pgid due started done sts counted em tid))"
  by (simp add: Task_init_def wf_task_def id_or_uuid_def split: option.splits)

lemma Subgoal_init_wf:
  "uuids n \<noteq> [] \<Longrightarrow> list_all wf_task (case ts of None \<Rightarrow> [] | Some xs \<Rightarrow> xs) \<Longrightarrow>
     wf_subgoal (fst (Subgoal_init uuids n title pgid level ts status sid))"
  by (simp add: Subgoal_init_def wf_subgoal_def id_or_uuid_def split: option.splits)

lemma Goal_init_wf:
  "uuids n \<noteq> [] \<Longrightarrow> valid_datetime now \<Longrightarrow>
     (case created_at of None \<Rightarrow> True | Some d \<Rightarrow> valid_datetime d) \<Longrightarrow>
     list_all wf_subgoal (case sgs of None \<Rightarrow> [] | Some xs \<Rightarrow> xs) \<Longrightarrow>
     wf_goal (fst (Goal_init uuids n now title descr sgs status category created_at gid conf rat))"
  by (simp add: Goal_init_def wf_goal_def id_or_uuid_def split: option.splits)

lemma Subtask_empty_id_not_restored:
  "Subtask_from_dict uuids n (PDict (Subtask_to_dict (st\<lparr>st_id := []\<rparr>))) =
     Inr (st\<lparr>st_id := uuids n\<rparr>, Suc n)"
  by (simp add: Subtask_from_dict_def Subtask_to_dict_def Subtask_init_def conv_defs)

text \<open>
  C4. Exporting a well-formed entity and importing the result gives back the entity itself,
  field by field and child by child, and draws no new identifier.
\<close>

theorem export_import_identity:
  "(wf_subtask st \<longrightarrow> Subtask_from_dict uuids n (PDict (Subtask_to_dict st)) = Inr (st, n)) \<and>
   (wf_task t \<longrightarrow> Task_from_dict uuids n (PDict (Task_to_dict t)) = Inr (t, n)) \<and>
   (wf_subgoal sg \<longrightarrow> Subgoal_from_dict uuids n (PDict (Subgoal_to_dict sg)) = Inr (sg, n)) \<and>
   (wf_goal g \<longrightarrow> Goal_from_dict uuids n now (PDict (Goal_to_dict g)) = Inr (g, n))"
  by (simp add: Subtask_roundtrip Task_roundtrip Subgoal_roundtrip Goal_roundtrip)

lemma ex_wf: "wf_subtask ex_subtask" "wf_task ex_task2" "wf_subgoal ex_subgoal2" "wf_goal ex_goal2"
  by (simp_all add: wf_subtask_def wf_task_def wf_subgoal_def wf_goal_def ex_subtask_def
      ex_task2_def ex_subgoal2_def ex_goal2_def valid_datetime_def days_in_month_def)

theorem export_import_identity_witness:
  "wf_subtask ex_subtask \<and> wf_task ex_task2 \<and> wf_subgoal ex_subgoal2 \<and> wf_goal ex_goal2 \<and>
   Subtask_from_dict ex_uuids 0 (PDict (Subtask_to_dict ex_subtask)) = Inr (ex_subtask, 0) \<and>
   Task_from_dict ex_uuids 0 (PDict (Task_to_dict ex_task2)) = Inr (ex_task2, 0) \<and>
   Subgoal_from_dict ex_uuids 0 (PDict (Subgoal_to_dict ex_subgoal2)) = Inr (ex_subgoal2, 0) \<and>
   Goal_from_dict ex_uuids 0 (g_created_at ex_goal2) (PDict (Goal_to_dict ex_goal2)) =
     Inr (ex_goal2, 0)"
  using export_import_identity [of ex_subtask ex_uuids 0 ex_task2 ex_subgoal2 ex_goal2 "g_created_at ex_goal2"]
    ex_wf
  by simp

lemma isoformat_example:
  "isoformat (g_created_at ex_goal2) = ''2024-02-29T23:05:09.001500''"
  by code_simp

lemma bind_result_Inr:
  "(bind_result m f = Inr y) = (\<exists>x. m = Inr x \<and> f x = Inr y)"
  by (cases m) (simp_all add: bind_result_def)

lemma Task_init_due:
  "\<exists>s. s \<noteq> [] \<and> t_due (fst (Task_init uuids n task psid pgid due started done sts counted em tid)) = Some s"
  by (simp add: Task_init_def split: prod.splits option.splits)

lemma as_dict_attr_Inr: "(as_dict_attr v = Inr d) = (v = PDict d)"
  by (cases v) (simp_all add: as_dict_attr_def)

lemma Task_from_dict_is_init:
  assumes "Task_from_dict uuids n v = Inr (t, n')"
  shows "\<exists>data due n1 task psid pgid started done sts counted em tid.
           v = PDict data \<and>
           as_opt_str (falsy_to_None (dict_get data ''due'' PNone)) = Inr due \<and>
           (t, n') = Task_init uuids n1 task psid pgid due started done sts counted em tid"
  using assms
  apply (simp add: Task_from_dict_def bind_result_Inr Let_def as_dict_attr_Inr split: prod.splits)
  apply (elim exE conjE)
  apply (intro exI conjI)
    apply assumption
   apply assumption
  apply (erule sym)
  done

lemma Task_from_dict_due:
  assumes "Task_from_dict uuids n v = Inr (t, n')"
  shows "\<exists>s. s \<noteq> [] \<and> t_due t = Some s"
proof -
  from Task_from_dict_is_init [OF assms] obtain n1 task psid pgid due started dn sts counted em tid
    where "(t, n') = Task_init uuids n1 task psid pgid due started dn sts counted em tid"
    by blast
  then have "t = fst (Task_init uuids n1 task psid pgid due started dn sts counted em tid)"
    by (metis fst_conv)
  then show ?thesis using Task_init_due by simp
qed

lemma due_falsy:
  assumes "map_of data ''due'' = None \<or> map_of data ''due'' = Some PNone \<or>
         map_of data ''due'' = Some (PStr [])"
  shows "as_opt_str (falsy_to_None (dict_get data ''due'' PNone)) = Inr None"
  using assms by (auto simp: dict_get_def falsy_to_None_def truthy_def as_opt_str_def)

lemma Task_from_dict_due_None:
  assumes "Task_from_dict uuids n (PDict data) = Inr (t, n')"
    and "map_of data ''due'' = None \<or> map_of data ''due'' = Some PNone \<or>
         map_of data ''due'' = Some (PStr [])"
  shows "t_due t = Some ''None''"
proof -
  from Task_from_dict_is_init [OF assms(1)] obtain due n1 task psid pgid started dn sts counted em tid
    where a: "as_opt_str (falsy_to_None (dict_get data ''due'' PNone)) = Inr due"
      and b: "(t, n') = Task_init uuids n1 task psid pgid due started dn sts counted em tid"
    by blast
  from a due_falsy [OF assms(2)] have "due = None" by simp
  with b have "t = fst (Task_init uuids n1 task psid pgid None started dn sts counted em tid)"
    by (metis fst_conv)
  then show ?thesis by (simp add: Task_init_def split: prod.splits)
qed

section \<open>The due label\<close>

lemma flatten_due:
  assumes "list_all (\<lambda>sg. list_all (\<lambda>t. t_due t \<noteq> None) (sg_tasks sg)) (g_subgoals g)"
  shows "list_all (\<lambda>r. \<exists>s. map_of r ''due'' = Some (PStr s)) (flatten_goal_to_legacy_tasks g)"
  using assms
  by (auto simp: flatten_goal_to_legacy_tasks_def list_all_iff of_opt_str_def split: option.splits)

text \<open>
  C10. A task built by the constructor, by \<^verbatim>\<open>Subgoal.add_task\<close> without a due date,
  or by \<^verbatim>\<open>Task.from_dict\<close> never stores a null (or empty) \<^verbatim>\<open>due\<close>: a missing,
  null or empty value becomes the string \<^verbatim>\<open>None\<close>. Hence the exported dictionary of
  such a task, and every flattened legacy record of a goal made of such tasks, carries a
  string under \<^verbatim>\<open>due\<close>.
\<close>

theorem Task_due_never_null:
  "(\<exists>s. s \<noteq> [] \<and>
      t_due (fst (Task_init uuids n task psid pgid due started dn sts counted em tid)) = Some s) \<and>
   (due = None \<or> due = Some [] \<longrightarrow>
      t_due (fst (Task_init uuids n task psid pgid due started dn sts counted em tid)) =
        Some ''None'') \<and>
   t_due (fst (snd (Subgoal_add_task uuids n sg descr None em))) = Some ''None'' \<and>
   (Task_from_dict uuids n v = Inr (t, n') \<longrightarrow> (\<exists>s. s \<noteq> [] \<and> t_due t = Some s)) \<and>
   (Task_from_dict uuids n (PDict data) = Inr (t, n') \<and>
      (map_of data ''due'' = None \<or> map_of data ''due'' = Some PNone \<or>
       map_of data ''due'' = Some (PStr [])) \<longrightarrow> t_due t = Some ''None'') \<and>
   (t_due t2 \<noteq> None \<longrightarrow> (\<exists>s. map_of (Task_to_dict t2) ''due'' = Some (PStr s))) \<and>
   (list_all (\<lambda>sg. list_all (\<lambda>t. t_due t \<noteq> None) (sg_tasks sg)) (g_subgoals g) \<longrightarrow>
      list_all (\<lambda>r. \<exists>s. map_of r ''due'' = Some (PStr s)) (flatten_goal_to_legacy_tasks g))"
proof (intro conjI impI)
  show "\<exists>s. s \<noteq> [] \<and>
      t_due (fst (Task_init uuids n task psid pgid due started dn sts counted em tid)) = Some s"
    by (rule Task_init_due)
  show "t_due (fst (snd (Subgoal_add_task uuids n sg descr None em))) = Some ''None''"
    by (simp add: Subgoal_add_task_def Task_init_def split: prod.splits)
  show "list_all (\<lambda>r. \<exists>s. map_of r ''due'' = Some (PStr s)) (flatten_goal_to_legacy_tasks g)"
    if "list_all (\<lambda>sg. list_all (\<lambda>t. t_due t \<noteq> None) (sg_tasks sg)) (g_subgoals g)"
    using that by (rule flatten_due)
  show "\<exists>s. map_of (Task_to_dict t2) ''due'' = Some (PStr s)" if "t_due t2 \<noteq> None"
    using that by (auto simp: Task_to_dict_def of_opt_str_def)
  show "\<exists>s. s \<noteq> [] \<and> t_due t = Some s" if "Task_from_dict uuids n v = Inr (t, n')"
    using that by (rule Task_from_dict_due)
  show "t_due t = Some ''None''"
    if "Task_from_dict uuids n (PDict data) = Inr (t, n') \<and>
      (map_of data ''due'' = None \<or> map_of data ''due'' = Some PNone \<or>
       map_of data ''due'' = Some (PStr []))"
    using that Task_from_dict_due_None by blast
  show "t_due (fst (Task_init uuids n task psid pgid due started dn sts counted em tid)) =
        Some ''None''" if "due = None \<or> due = Some []"
    using that by (auto simp: Task_init_def split: prod.splits)
qed

lemma ex_task_dict_import:
  "Task_from_dict ex_uuids 0 (PDict (ex_task_dict PNone)) = Inr (ex_imported_task, 1)"
  "Task_from_dict ex_uuids 0 (PDict (ex_task_dict (PStr ''''))) = Inr (ex_imported_task, 1)"
  "Task_from_dict ex_uuids 0 (PDict (butlast (ex_task_dict PNone))) = Inr (ex_imported_task, 1)"
  by (simp_all add: Task_from_dict_def ex_task_dict_def ex_imported_task_def Task_init_def
      conv_defs ex_uuids_def decimal.simps digit_char_def)

theorem Task_due_never_null_witness:
  "Task_from_dict ex_uuids 0 (PDict (ex_task_dict PNone)) = Inr (ex_imported_task, 1) \<and>
   map_of (ex_task_dict PNone) ''due'' = Some PNone \<and>
   t_due ex_imported_task = Some ''None'' \<and>
   t_due ex_task2 \<noteq> None \<and>
   map_of (Task_to_dict ex_task2) ''due'' = Some (PStr ''Friday'') \<and>
   list_all (\<lambda>sg. list_all (\<lambda>t. t_due t \<noteq> None) (sg_tasks sg)) (g_subgoals ex_goal2) \<and>
   map (\<lambda>r. map_of r ''due'') (flatten_goal_to_legacy_tasks ex_goal2) = [Some (PStr ''Friday'')]"
  using Task_due_never_null [of ex_uuids 0 "''read''" "''sg-1''" "''g-1''" None False False None
      False None None ex_subgoal2 "''write''" "PDict (ex_task_dict PNone)" ex_imported_task 1
      "ex_task_dict PNone" ex_task2 ex_goal2]
    ex_task_dict_import(1)
  by (simp add: ex_task_dict_def ex_imported_task_def ex_task2_def ex_goal2_def ex_subgoal2_def
      Task_to_dict_def of_opt_str_def flatten_goal_to_legacy_tasks_def)

section \<open>Tree rendering: the connectors\<close>

lemmas render_defs = visualize_lines_def subgoal_lines_def task_lines_def subtask_lines_def
  enumerate1_def subtask_prefix_def task_prefix_def subgoal_prefix_def str_opt_int_def str_int_def

lemma task_connectors_differ:
  "task_prefix True \<noteq> task_prefix False"
  "subtask_prefix b True \<noteq> subtask_prefix b False"
  by (simp_all add: task_prefix_def subtask_prefix_def box_tee_def box_corner_def)

lemma subgoal_lines_position_free:
  "subgoal_lines goal =
     concat (map (\<lambda>subgoal.
            (subgoal_prefix @ '' '' @ emoji_diamond @ '' '' @ sg_title subgoal @ '' ('' @
               decimal (length (sg_tasks subgoal)) @ '' tasks)'')
            # task_lines subgoal)
         (g_subgoals goal))"
proof -
  have "map (\<lambda>(i, x). f x) (zip [1..<Suc (length xs)] xs) = map f xs" for f :: "Subgoal \<Rightarrow> string list" and xs
  proof -
    have "map (\<lambda>(i, x). f x) (zip [1..<Suc (length xs)] xs) =
          map f (map snd (zip [1..<Suc (length xs)] xs))"
      by (simp add: case_prod_unfold comp_def)
    also have "map snd (zip [1..<Suc (length xs)] xs) = xs"
      by (rule map_snd_zip) (simp del: upt_Suc)
    finally show ?thesis .
  qed
  then show ?thesis
    by (simp add: subgoal_lines_def enumerate1_def)
qed

text \<open>
  C8 at a goal with two subgoals, the first without tasks, the second with a pending task
  that has two subtasks and a done task that has one. Both subgoal lines, the last one
  included, start with the tee connector; the task lines under the last subgoal still carry
  the vertical bar of the subgoal level, with no subgoal following. At the task and subtask
  levels the last child gets the corner connector.
\<close>

theorem visualize_goal_tree_last_subgoal:
  "visualize_lines fmt ex_goal3 =
     [emoji_target @ '' goal ['' @ fmt 50 @ ''% complete]'',
      ''  '' @ box_tee @ box_horizontal @ '' '' @ emoji_diamond @ '' phase (0 tasks)'',
      ''  '' @ box_tee @ box_horizontal @ '' '' @ emoji_diamond @ '' phase (2 tasks)'',
      ''  '' @ box_vertical @ ''  '' @ box_tee @ box_horizontal @ '' '' @ emoji_square @
         '' read (10min)'',
      ''  '' @ box_vertical @ ''  '' @ box_vertical @ ''  '' @ box_tee @ box_horizontal @ '' '' @
         emoji_square @ '' step'',
      ''  '' @ box_vertical @ ''  '' @ box_vertical @ ''  '' @ box_corner @ box_horizontal @ '' '' @
         emoji_check @ '' step'',
      ''  '' @ box_vertical @ ''  '' @ box_corner @ box_horizontal @ '' '' @ emoji_check @
         '' read (10min)'',
      ''     '' @ box_corner @ box_horizontal @ '' '' @ emoji_check @ '' step'']"
  by (simp add: render_defs ex_goal3_def ex_goal_def ex_subgoal_def ex_task_def upt_rec Let_def
      decimal.simps digit_char_def Goal_get_completion_percentage_def)

section \<open>The parse stage\<close>

lemma set_py_strip: "set (py_strip s) \<subseteq> set s"
proof -
  have "set (dropWhile P xs) \<subseteq> set xs" for P and xs :: string
    by (meson set_dropWhileD subsetI)
  then show ?thesis
    unfolding py_strip_def by (metis set_rev subset_trans)
qed

lemma llm_data_service_error: "llm env k = Inl e \<Longrightarrow> llm_data env k = Inl e"
  by (simp add: llm_data_def bind_result_def)

lemma extract_json_no_brace:
  assumes "CHR ''{'' \<notin> set content \<or> CHR ''}'' \<notin> set content"
  shows "extract_json env content = Inl (ValueError ''substring not found'')"
proof -
  have "CHR ''{'' \<notin> set (py_strip content) \<or> CHR ''}'' \<notin> set (py_strip content)"
    using assms set_py_strip [of content] by blast
  then show ?thesis
    by (auto simp: extract_json_def Let_def bind_result_def str_index_def str_rindex_def)
qed

lemma llm_data_extract_error:
  "llm env k = Inr content \<Longrightarrow> extract_json env content = Inl e \<Longrightarrow> llm_data env k = Inl e"
  by (simp add: llm_data_def bind_result_def)

lemma extract_json_loads_error:
  assumes "str_index (py_strip content) (CHR ''{'') = Inr i"
    and "str_rindex (py_strip content) (CHR ''}'') = Inr j"
    and "json_loads env (py_slice (py_strip content) i (j + 1)) = Inl e"
  shows "extract_json env content = Inl e"
  using assms by (simp add: extract_json_def Let_def bind_result_def)

lemma llm_data_not_dict:
  "llm env k = Inr content \<Longrightarrow> extract_json env content = Inr v \<Longrightarrow> \<not> is_dict v \<Longrightarrow>
     \<exists>m. llm_data env k = Inl (AttributeError m)"
  by (cases v) (simp_all add: llm_data_def bind_result_def as_dict_attr_def is_dict_def)

lemma parse_goal_node_Inl:
  "llm_data env k = Inl e \<Longrightarrow>
     parse_goal_node env k s =
       (s\<lparr>ds_parsed_goal_title := PStr (ds_goal_text s), ds_parsed_goal_description := PStr '''',
          ds_error := ''Parse error: '' @ str_exn e\<rparr>, Suc k)"
  by (simp add: parse_goal_node_def)

lemma snd_parse_goal_node: "snd (parse_goal_node env k s) = Suc k"
  by (simp add: parse_goal_node_def split: sum.splits)

lemma snd_decompose_to_subgoals_node: "snd (decompose_to_subgoals_node env k s) = Suc k"
  by (simp add: decompose_to_subgoals_node_def split: sum.splits)

lemma step_ParseGoal:
  "cf_node c = ParseGoal \<Longrightarrow>
     step env c = Inr \<lparr>cf_node = DecomposeToSubgoals,
                      cf_state = fst (parse_goal_node env (cf_calls c) (cf_state c)),
                      cf_calls = Suc (cf_calls c)\<rparr>"
  using snd_parse_goal_node [of env "cf_calls c" "cf_state c"]
  by (auto simp add: step_def split: prod.splits)

lemma step_DecomposeToSubgoals:
  "cf_node c = DecomposeToSubgoals \<Longrightarrow>
     step env c = Inr \<lparr>cf_node = GenerateTasks,
                      cf_state = fst (decompose_to_subgoals_node env (cf_calls c) (cf_state c)),
                      cf_calls = Suc (cf_calls c)\<rparr>"
  using snd_decompose_to_subgoals_node [of env "cf_calls c" "cf_state c"]
  by (auto simp add: step_def split: prod.splits)

text \<open>
  C3. When the parse stage fails, whether the service call raises, the response holds no
  \<^verbatim>\<open>{\<close> or no \<^verbatim>\<open>}\<close>, or the extracted text does not decode, the node returns
  normally: the parsed title is the raw goal text, the parsed description is empty, the
  error note is written, and every other field, confidence and rationale included, is as
  before. The node never raises, and the graph goes on to the subgoal-split node.
\<close>

theorem parse_goal_node_fallback:
  "(llm env k = Inl e \<longrightarrow> llm_data env k = Inl e) \<and>
   (llm env k = Inr content \<and> (CHR ''{'' \<notin> set content \<or> CHR ''}'' \<notin> set content) \<longrightarrow>
      llm_data env k = Inl (ValueError ''substring not found'')) \<and>
   (llm env k = Inr content \<and> str_index (py_strip content) (CHR ''{'') = Inr i \<and>
      str_rindex (py_strip content) (CHR ''}'') = Inr j \<and>
      json_loads env (py_slice (py_strip content) i (j + 1)) = Inl e \<longrightarrow>
      llm_data env k = Inl e) \<and>
   (llm_data env k = Inl e \<longrightarrow>
      parse_goal_node env k s =
        (s\<lparr>ds_parsed_goal_title := PStr (ds_goal_text s), ds_parsed_goal_description := PStr '''',
           ds_error := ''Parse error: '' @ str_exn e\<rparr>, Suc k) \<and>
      ds_confidence (fst (parse_goal_node env k s)) = ds_confidence s \<and>
      ds_rationale (fst (parse_goal_node env k s)) = ds_rationale s) \<and>
   (cf_node c = ParseGoal \<longrightarrow>
      step env c = Inr \<lparr>cf_node = DecomposeToSubgoals,
                       cf_state = fst (parse_goal_node env (cf_calls c) (cf_state c)),
                       cf_calls = Suc (cf_calls c)\<rparr>)"
  using llm_data_service_error [of env k e]
    llm_data_extract_error [of env k content, OF _ extract_json_no_brace]
    llm_data_extract_error [of env k content e, OF _ extract_json_loads_error]
    parse_goal_node_Inl [of env k e s] step_ParseGoal [of c env]
  by auto

section \<open>The task-generation loop\<close>

lemma decimal_inj:
  assumes "decimal a = decimal b"
  shows "a = b"
proof -
  have "parse_nat_acc 0 (decimal a) = parse_nat_acc 0 (decimal b)"
    by (simp only: assms)
  then have "Some (0 * 10 ^ length (decimal a) + a) = Some (0 * 10 ^ length (decimal b) + b)"
    by (simp only: parse_nat_acc_decimal)
  then show ?thesis by simp
qed

lemma dict_set_fresh: "k \<notin> fst ` set d \<Longrightarrow> dict_set d k v = d @ [(k, v)]"
  by (simp add: dict_set_def)

lemma stored_tasks_Suc:
  "stored_tasks env k (Suc j) =
     stored_tasks env k j @ [(''subgoal_'' @ decimal j, call_tasks env (k + j))]"
  by (simp add: stored_tasks_def)

lemma stored_tasks_fresh: "''subgoal_'' @ decimal j \<notin> fst ` set (stored_tasks env k j)"
  by (auto simp: stored_tasks_def dest: decimal_inj)

lemma dict_set_stored_tasks:
  "dict_set (stored_tasks env k j) (''subgoal_'' @ decimal j) (call_tasks env (k + j)) =
     stored_tasks env k (Suc j)"
proof -
  have "dict_set (stored_tasks env k j) (''subgoal_'' @ decimal j) (call_tasks env (k + j)) =
          stored_tasks env k j @ [(''subgoal_'' @ decimal j, call_tasks env (k + j))]"
    by (rule dict_set_fresh) (rule stored_tasks_fresh)
  then show ?thesis by (simp only: stored_tasks_Suc)
qed

lemma as_dict_attr_is_dict: "is_dict v \<Longrightarrow> \<exists>d. as_dict_attr v = Inr d"
  by (cases v) (simp_all add: is_dict_def as_dict_attr_def)

lemma generate_node_guard:
  assumes "ds_subgoals_list s = PList stubs" "length stubs \<le> ds_current_subgoal_index s"
  shows "generate_tasks_for_subgoal_node env k s = Inr (s, k)"
  using assms by (simp add: generate_tasks_for_subgoal_node_def py_len_def bind_result_def)

lemma generate_node_body:
  assumes "ds_subgoals_list s = PList stubs" "ds_current_subgoal_index s < length stubs"
    and "is_dict (stubs ! ds_current_subgoal_index s)"
  shows "generate_tasks_for_subgoal_node env k s =
     (case llm_data env k of
        Inr data \<Rightarrow>
          Inr (s\<lparr>ds_generated_tasks :=
                    dict_set (ds_generated_tasks s)
                      (''subgoal_'' @ decimal (ds_current_subgoal_index s))
                      (dict_get data ''tasks'' (PList [])),
                  ds_confidence := dict_get data ''confidence'' (PInt 0),
                  ds_rationale := dict_get data ''rationale'' (PStr ''''),
                  ds_current_subgoal_index := ds_current_subgoal_index s + 1\<rparr>, Suc k)
      | Inl e \<Rightarrow> Inr (s\<lparr>ds_error := ''Task generation error: '' @ str_exn e\<rparr>, Suc k))"
proof -
  from as_dict_attr_is_dict [OF assms(3)] obtain d
    where "as_dict_attr (stubs ! ds_current_subgoal_index s) = Inr d" ..
  then show ?thesis
    using assms(1,2)
    by (simp add: generate_tasks_for_subgoal_node_def py_len_def py_index_def bind_result_def
        Let_def split: sum.splits)
qed

lemma should_continue_list:
  "ds_subgoals_list s = PList stubs \<Longrightarrow>
     should_continue_task_generation s =
       Inr (if ds_current_subgoal_index s < length stubs then ''continue'' else ''finalize'')"
  by (simp add: should_continue_task_generation_def py_len_def bind_result_def)

lemma step_GenerateTasks_failure:
  assumes "cf_node c = GenerateTasks" "ds_subgoals_list (cf_state c) = PList stubs"
    and "ds_current_subgoal_index (cf_state c) < length stubs"
    and "is_dict (stubs ! ds_current_subgoal_index (cf_state c))"
    and "llm_data env (cf_calls c) = Inl e"
  shows "step env c =
     Inr \<lparr>cf_node = GenerateTasks,
          cf_state = (cf_state c)\<lparr>ds_error := ''Task generation error: '' @ str_exn e\<rparr>,
          cf_calls = Suc (cf_calls c)\<rparr>"
  using assms
  by (simp add: step_def generate_node_body [OF assms(2,3,4)] bind_result_def
      should_continue_list [of _ stubs])

lemma step_GenerateTasks_success:
  assumes "cf_node c = GenerateTasks" "ds_subgoals_list (cf_state c) = PList stubs"
    and "ds_current_subgoal_index (cf_state c) < length stubs"
    and "is_dict (stubs ! ds_current_subgoal_index (cf_state c))"
    and "llm_data env (cf_calls c) = Inr data"
  shows "step env c =
     Inr \<lparr>cf_node = (if Suc (ds_current_subgoal_index (cf_state c)) < length stubs
                     then GenerateTasks else Finalize),
          cf_state = (cf_state c)
            \<lparr>ds_generated_tasks :=
                dict_set (ds_generated_tasks (cf_state c))
                  (''subgoal_'' @ decimal (ds_current_subgoal_index (cf_state c)))
                  (dict_get data ''tasks'' (PList [])),
              ds_confidence := dict_get data ''confidence'' (PInt 0),
              ds_rationale := dict_get data ''rationale'' (PStr ''''),
              ds_current_subgoal_index := Suc (ds_current_subgoal_index (cf_state c))\<rparr>,
          cf_calls = Suc (cf_calls c)\<rparr>"
  using assms
  by (simp add: step_def generate_node_body [OF assms(2,3,4)] bind_result_def
      should_continue_list [of _ stubs])

lemma step_GenerateTasks_guard:
  assumes "cf_node c = GenerateTasks" "ds_subgoals_list (cf_state c) = PList stubs"
    and "length stubs \<le> ds_current_subgoal_index (cf_state c)"
  shows "step env c = Inr (c\<lparr>cf_node := Finalize\<rparr>)"
  using assms
  by (simp add: step_def generate_node_guard [OF assms(2,3)] bind_result_def
      should_continue_list [of _ stubs])

lemma steps_add:
  "steps env (a + b) c = (case steps env a c of Inl e \<Rightarrow> Inl e | Inr c1 \<Rightarrow> steps env b c1)"
  by (induction a arbitrary: c) (simp_all split: sum.splits)

lemma steps_Suc_end:
  "steps env (Suc m) c = (case steps env m c of Inl e \<Rightarrow> Inl e | Inr c1 \<Rightarrow> step env c1)"
  using steps_add [of env m 1 c] by (simp split: sum.splits)

lemma steps_2_initial_config:
  "steps env 2 (initial_config gt cat fb) =
     Inr \<lparr>cf_node = GenerateTasks, cf_state = split_state env gt cat fb, cf_calls = 2\<rparr>"
  by (simp add: numeral_2_eq_2 step_ParseGoal step_DecomposeToSubgoals initial_config_def
      split_state_def)

lemma parse_goal_node_keeps:
  "ds_current_subgoal_index (fst (parse_goal_node env k s)) = ds_current_subgoal_index s"
  "ds_generated_tasks (fst (parse_goal_node env k s)) = ds_generated_tasks s"
  "ds_category (fst (parse_goal_node env k s)) = ds_category s"
  by (simp_all add: parse_goal_node_def split: sum.splits)

lemma decompose_to_subgoals_node_keeps:
  "ds_current_subgoal_index s = 0 \<Longrightarrow>
     ds_current_subgoal_index (fst (decompose_to_subgoals_node env k s)) = 0"
  "ds_generated_tasks s = [] \<Longrightarrow> ds_generated_tasks (fst (decompose_to_subgoals_node env k s)) = []"
  "ds_category (fst (decompose_to_subgoals_node env k s)) = ds_category s"
  by (simp_all add: decompose_to_subgoals_node_def split: sum.splits)

lemma split_state_fields:
  "ds_current_subgoal_index (split_state env gt cat fb) = 0"
  "ds_generated_tasks (split_state env gt cat fb) = []"
  "ds_category (split_state env gt cat fb) = cat"
  by (simp_all add: split_state_def parse_goal_node_keeps decompose_to_subgoals_node_keeps
      initial_state_def)

lemma split_failure_empty:
  "llm_data env 1 = Inl e \<Longrightarrow> ds_subgoals_list (split_state env gt cat fb) = PList []"
  by (simp add: split_state_def decompose_to_subgoals_node_def)

lemma call_ok_data: "call_ok env k \<Longrightarrow> \<exists>data. llm_data env k = Inr data"
  by (cases "llm_data env k") (simp_all add: call_ok_def)

lemma loop_invariant:
  assumes dicts: "list_all is_dict stubs"
    and ok: "\<forall>i<length stubs. call_ok env (k + i)"
    and c0: "cf_node c0 = GenerateTasks" "ds_subgoals_list (cf_state c0) = PList stubs"
      "ds_current_subgoal_index (cf_state c0) = 0" "ds_generated_tasks (cf_state c0) = []"
      "cf_calls c0 = k"
    and pos: "0 < length stubs"
    and j: "j \<le> length stubs"
  shows "\<exists>c. steps env j c0 = Inr c \<and>
           cf_node c = (if j < length stubs then GenerateTasks else Finalize) \<and>
           ds_subgoals_list (cf_state c) = PList stubs \<and>
           ds_current_subgoal_index (cf_state c) = j \<and>
           ds_generated_tasks (cf_state c) = stored_tasks env k j \<and>
           cf_calls c = k + j \<and>
           ds_category (cf_state c) = ds_category (cf_state c0)"
  using j
proof (induction j)
  case 0
  then show ?case using c0 pos by (simp add: stored_tasks_def)
next
  case (Suc j)
  then have jlt: "j < length stubs" by simp
  with Suc.IH obtain c where c: "steps env j c0 = Inr c" "cf_node c = GenerateTasks"
      "ds_subgoals_list (cf_state c) = PList stubs" "ds_current_subgoal_index (cf_state c) = j"
      "ds_generated_tasks (cf_state c) = stored_tasks env k j" "cf_calls c = k + j"
      "ds_category (cf_state c) = ds_category (cf_state c0)"
    by auto
  from ok jlt obtain data where data: "llm_data env (k + j) = Inr data"
    using call_ok_data by blast
  have tasks: "dict_get data ''tasks'' (PList []) = call_tasks env (k + j)"
    by (simp add: call_tasks_def data)
  have d: "is_dict (stubs ! ds_current_subgoal_index (cf_state c))"
    using dicts jlt c(4) by (simp add: list_all_length)
  have st: "step env c =
     Inr \<lparr>cf_node = (if Suc j < length stubs then GenerateTasks else Finalize),
          cf_state = (cf_state c)
            \<lparr>ds_generated_tasks := stored_tasks env k (Suc j),
              ds_confidence := dict_get data ''confidence'' (PInt 0),
              ds_rationale := dict_get data ''rationale'' (PStr ''''),
              ds_current_subgoal_index := Suc j\<rparr>,
          cf_calls = Suc (k + j)\<rparr>"
    using step_GenerateTasks_success [OF c(2) c(3) _ d, of env data] jlt data
    by (simp only: c(4) c(5) c(6) tasks dict_set_stored_tasks)
  show ?case
    by (simp only: steps_Suc_end c(1) sum.case st) (simp add: c)
qed

lemma graph_invoke_steps:
  "steps env m c = Inr c1 \<Longrightarrow> graph_invoke env (m + f) c = graph_invoke env f c1"
proof (induction m arbitrary: c)
  case 0
  then show ?case by simp
next
  case (Suc m)
  show ?case
  proof (cases "cf_node c = END")
    case True
    then have "step env c = Inr c" by (simp add: step_def)
    with Suc have "graph_invoke env (m + f) c = graph_invoke env f c1" by simp
    moreover have "graph_invoke env (m + f) c = Done (cf_state c)"
      using True by (cases "m + f") simp_all
    ultimately show ?thesis using True by simp
  next
    case False
    with Suc show ?thesis by (auto split: sum.splits)
  qed
qed

lemma graph_invoke_Finalize:
  "cf_node c = Finalize \<Longrightarrow>
     graph_invoke env (Suc f) c =
       (case finalize_goal_node env (cf_state c) of Inl e \<Rightarrow> Raised e | Inr s \<Rightarrow> Done s)"
  by (cases f) (simp_all add: step_def bind_result_def split: sum.splits)

lemma steps_initial_loop:
  assumes "ds_subgoals_list (split_state env gt cat fb) = PList stubs"
    and "list_all is_dict stubs"
    and "\<forall>i<length stubs. call_ok env (2 + i)"
    and "0 < length stubs" "j \<le> length stubs"
  shows "\<exists>c. steps env (2 + j) (initial_config gt cat fb) = Inr c \<and>
           cf_node c = (if j < length stubs then GenerateTasks else Finalize) \<and>
           ds_subgoals_list (cf_state c) = PList stubs \<and>
           ds_current_subgoal_index (cf_state c) = j \<and>
           ds_generated_tasks (cf_state c) = stored_tasks env 2 j \<and>
           cf_calls c = 2 + j \<and> ds_category (cf_state c) = cat"
proof -
  let ?c2 = "\<lparr>cf_node = GenerateTasks, cf_state = split_state env gt cat fb, cf_calls = 2\<rparr>"
  have "\<exists>c. steps env j ?c2 = Inr c \<and>
           cf_node c = (if j < length stubs then GenerateTasks else Finalize) \<and>
           ds_subgoals_list (cf_state c) = PList stubs \<and>
           ds_current_subgoal_index (cf_state c) = j \<and>
           ds_generated_tasks (cf_state c) = stored_tasks env 2 j \<and>
           cf_calls c = 2 + j \<and> ds_category (cf_state c) = ds_category (cf_state ?c2)"
    by (rule loop_invariant [OF assms(2,3) _ _ _ _ _ assms(4,5)])
      (simp_all add: assms(1) split_state_fields)
  then obtain c where c: "steps env j ?c2 = Inr c"
      "cf_node c = (if j < length stubs then GenerateTasks else Finalize)"
      "ds_subgoals_list (cf_state c) = PList stubs"
      "ds_current_subgoal_index (cf_state c) = j"
      "ds_generated_tasks (cf_state c) = stored_tasks env 2 j"
      "cf_calls c = 2 + j" "ds_category (cf_state c) = ds_category (cf_state ?c2)"
    by blast
  have "steps env (2 + j) (initial_config gt cat fb) = Inr c"
    by (simp only: steps_add steps_2_initial_config sum.case c(1))
  moreover have "ds_category (cf_state c) = cat"
    using c(7) by (simp add: split_state_fields)
  ultimately show ?thesis using c(2-6) by blast
qed

lemma steps_initial_empty:
  assumes "ds_subgoals_list (split_state env gt cat fb) = PList []"
  shows "steps env 3 (initial_config gt cat fb) =
           Inr \<lparr>cf_node = Finalize, cf_state = split_state env gt cat fb, cf_calls = 2\<rparr>"
proof -
  let ?c2 = "\<lparr>cf_node = GenerateTasks, cf_state = split_state env gt cat fb, cf_calls = 2\<rparr>"
  have "step env ?c2 = Inr (?c2\<lparr>cf_node := Finalize\<rparr>)"
    by (rule step_GenerateTasks_guard [where stubs = "[]"]) (simp_all add: assms)
  then have "steps env 1 ?c2 = Inr (?c2\<lparr>cf_node := Finalize\<rparr>)"
    by simp
  then have "steps env (2 + 1) (initial_config gt cat fb) = Inr (?c2\<lparr>cf_node := Finalize\<rparr>)"
    by (simp only: steps_add steps_2_initial_config sum.case)
  then show ?thesis by simp
qed

text \<open>
  C1. Take a run of the pipeline in which the split stage leaves a list of \<open>n\<close> stubs
  (dictionaries) and the \<open>n\<close> service calls of the task-generation stage, the calls
  numbered \<open>2\<close> to \<open>n + 1\<close> of the run, each return text that decodes to a dictionary.
  Then for every \<open>j < n\<close> the run stands at the task-generation node with cursor \<open>j\<close>
  after \<open>j\<close> iterations, having stored the task lists of the first \<open>j\<close> calls under the
  keys \<^verbatim>\<open>subgoal_0\<close> to \<^verbatim>\<open>subgoal_(j-1)\<close>; after \<open>n\<close> iterations the cursor is
  \<open>n\<close>, exactly \<open>n\<close> task-generation calls have been made, and the next node is
  \<^verbatim>\<open>finalize\<close>. The conditional edge answers \<^verbatim>\<open>finalize\<close> exactly when the
  cursor has reached the length of the list. For \<open>n = 0\<close> the node returns at its guard
  without calling the service or changing the state, and the run goes on to
  \<^verbatim>\<open>finalize\<close>. With enough fuel the run does not remain in the loop.
\<close>

theorem task_generation_loop_runs_n_times:
  assumes "ds_subgoals_list (split_state env gt cat fb) = PList stubs"
    and "list_all is_dict stubs"
    and "\<forall>i<length stubs. call_ok env (2 + i)"
  shows
    "(\<forall>j<length stubs. \<exists>c. steps env (2 + j) (initial_config gt cat fb) = Inr c \<and>
         cf_node c = GenerateTasks \<and>
         ds_current_subgoal_index (cf_state c) = j \<and>
         ds_generated_tasks (cf_state c) = stored_tasks env 2 j \<and>
         cf_calls c = 2 + j) \<and>
     (\<exists>c. steps env (2 + max 1 (length stubs)) (initial_config gt cat fb) = Inr c \<and>
         cf_node c = Finalize \<and>
         ds_subgoals_list (cf_state c) = PList stubs \<and>
         ds_current_subgoal_index (cf_state c) = length stubs \<and>
         ds_generated_tasks (cf_state c) = stored_tasks env 2 (length stubs) \<and>
         cf_calls c = 2 + length stubs \<and>
         (\<forall>fuel. decompose_goal_with_langgraph env (3 + max 1 (length stubs) + fuel) gt cat fb =
            (case finalize_goal_node env (cf_state c) of
               Inl e \<Rightarrow> Raised e | Inr s \<Rightarrow> Done (ds_final_goal s)))) \<and>
     (length stubs = 0 \<longrightarrow>
        steps env 3 (initial_config gt cat fb) =
          Inr \<lparr>cf_node = Finalize, cf_state = split_state env gt cat fb, cf_calls = 2\<rparr>) \<and>
     (\<forall>s. ds_subgoals_list s = PList stubs \<longrightarrow>
        should_continue_task_generation s =
          Inr (if ds_current_subgoal_index s < length stubs then ''continue'' else ''finalize''))"
proof (intro conjI allI impI)
  fix j assume j: "j < length stubs"
  then have "0 < length stubs" "j \<le> length stubs" by auto
  from steps_initial_loop [OF assms this] j
  show "\<exists>c. steps env (2 + j) (initial_config gt cat fb) = Inr c \<and>
         cf_node c = GenerateTasks \<and>
         ds_current_subgoal_index (cf_state c) = j \<and>
         ds_generated_tasks (cf_state c) = stored_tasks env 2 j \<and>
         cf_calls c = 2 + j"
    by (auto simp del: steps.simps)
next
  assume "length stubs = 0"
  then show "steps env 3 (initial_config gt cat fb) =
          Inr \<lparr>cf_node = Finalize, cf_state = split_state env gt cat fb, cf_calls = 2\<rparr>"
    using steps_initial_empty [of env gt cat fb] assms(1) by simp
next
  fix s :: DecompositionState assume "ds_subgoals_list s = PList stubs"
  then show "should_continue_task_generation s =
          Inr (if ds_current_subgoal_index s < length stubs then ''continue'' else ''finalize'')"
    by (rule should_continue_list)
next
  have "\<exists>c. steps env (2 + max 1 (length stubs)) (initial_config gt cat fb) = Inr c \<and>
         cf_node c = Finalize \<and>
         ds_subgoals_list (cf_state c) = PList stubs \<and>
         ds_current_subgoal_index (cf_state c) = length stubs \<and>
         ds_generated_tasks (cf_state c) = stored_tasks env 2 (length stubs) \<and>
         cf_calls c = 2 + length stubs"
  proof (cases "length stubs = 0")
    case True
    then have m: "2 + max 1 (length stubs) = 3" by simp
    show ?thesis
      unfolding m using steps_initial_empty [of env gt cat fb] assms(1) True
      by (simp add: split_state_fields stored_tasks_def del: steps.simps)
  next
    case False
    then have p: "0 < length stubs" by auto
    then have m: "max 1 (length stubs) = length stubs" by (cases stubs) simp_all
    show ?thesis
      unfolding m using steps_initial_loop [OF assms p, of "length stubs"]
      by (auto simp del: steps.simps)
  qed
  then obtain c where c: "steps env (2 + max 1 (length stubs)) (initial_config gt cat fb) = Inr c"
      "cf_node c = Finalize" "ds_subgoals_list (cf_state c) = PList stubs"
      "ds_current_subgoal_index (cf_state c) = length stubs"
      "ds_generated_tasks (cf_state c) = stored_tasks env 2 (length stubs)"
      "cf_calls c = 2 + length stubs"
    by blast
  have run: "decompose_goal_with_langgraph env (3 + max 1 (length stubs) + fuel) gt cat fb =
            (case finalize_goal_node env (cf_state c) of
               Inl e \<Rightarrow> Raised e | Inr s \<Rightarrow> Done (ds_final_goal s))" for fuel
  proof -
    have "3 + max 1 (length stubs) + fuel = (2 + max 1 (length stubs)) + Suc fuel" by simp
    then have "graph_invoke env (3 + max 1 (length stubs) + fuel) (initial_config gt cat fb) =
        graph_invoke env (Suc fuel) c"
      using graph_invoke_steps [OF c(1), of "Suc fuel"] by (simp only:)
    then have g: "graph_invoke env (3 + max 1 (length stubs) + fuel) (initial_config gt cat fb) =
        (case finalize_goal_node env (cf_state c) of Inl e \<Rightarrow> Raised e | Inr s \<Rightarrow> Done s)"
      by (simp only: graph_invoke_Finalize [OF c(2)])
    show ?thesis
      unfolding decompose_goal_with_langgraph_def g
      by (simp split: sum.splits)
  qed
  show "\<exists>c. steps env (2 + max 1 (length stubs)) (initial_config gt cat fb) = Inr c \<and>
         cf_node c = Finalize \<and>
         ds_subgoals_list (cf_state c) = PList stubs \<and>
         ds_current_subgoal_index (cf_state c) = length stubs \<and>
         ds_generated_tasks (cf_state c) = stored_tasks env 2 (length stubs) \<and>
         cf_calls c = 2 + length stubs \<and>
         (\<forall>fuel. decompose_goal_with_langgraph env (3 + max 1 (length stubs) + fuel) gt cat fb =
            (case finalize_goal_node env (cf_state c) of
               Inl e \<Rightarrow> Raised e | Inr s \<Rightarrow> Done (ds_final_goal s)))"
    using c run by blast
qed

lemma failure_steps:
  assumes "cf_node c = GenerateTasks" "ds_subgoals_list (cf_state c) = PList stubs"
    and "ds_current_subgoal_index (cf_state c) < length stubs"
    and "is_dict (stubs ! ds_current_subgoal_index (cf_state c))"
    and "\<forall>m. \<not> call_ok env (cf_calls c + m)"
  shows "\<exists>c1. steps env m c = Inr c1 \<and> cf_node c1 = GenerateTasks \<and>
           ds_subgoals_list (cf_state c1) = PList stubs \<and>
           ds_current_subgoal_index (cf_state c1) = ds_current_subgoal_index (cf_state c) \<and>
           ds_generated_tasks (cf_state c1) = ds_generated_tasks (cf_state c) \<and>
           cf_calls c1 = cf_calls c + m"
proof (induction m)
  case 0
  then show ?case using assms by simp
next
  case (Suc m)
  then obtain c1 where c1: "steps env m c = Inr c1" "cf_node c1 = GenerateTasks"
      "ds_subgoals_list (cf_state c1) = PList stubs"
      "ds_current_subgoal_index (cf_state c1) = ds_current_subgoal_index (cf_state c)"
      "ds_generated_tasks (cf_state c1) = ds_generated_tasks (cf_state c)"
      "cf_calls c1 = cf_calls c + m"
    by blast
  from assms(5) have "\<not> call_ok env (cf_calls c1)" by (simp add: c1(6))
  then obtain e where e: "llm_data env (cf_calls c1) = Inl e"
    by (cases "llm_data env (cf_calls c1)") (simp_all add: call_ok_def)
  have "step env c1 =
     Inr \<lparr>cf_node = GenerateTasks,
          cf_state = (cf_state c1)\<lparr>ds_error := ''Task generation error: '' @ str_exn e\<rparr>,
          cf_calls = Suc (cf_calls c1)\<rparr>"
    using assms(3,4) by (intro step_GenerateTasks_failure [OF c1(2) c1(3) _ _ e]) (simp_all add: c1(4))
  then have "steps env (Suc m) c =
     Inr \<lparr>cf_node = GenerateTasks,
          cf_state = (cf_state c1)\<lparr>ds_error := ''Task generation error: '' @ str_exn e\<rparr>,
          cf_calls = Suc (cf_calls c1)\<rparr>"
    by (simp only: steps_Suc_end c1(1) sum.case)
  then show ?case
    using c1 by (simp del: steps.simps)
qed

lemma graph_invoke_never_ends:
  assumes "\<And>m. \<exists>c1. steps env m c = Inr c1 \<and> cf_node c1 \<noteq> END"
  shows "graph_invoke env fuel c = OutOfFuel"
  using assms
proof (induction fuel arbitrary: c)
  case 0
  from "0" [of 0] show ?case by simp
next
  case (Suc fuel)
  from Suc.prems [of 0] have n: "cf_node c \<noteq> END" by simp
  from Suc.prems [of 1] obtain c1 where c1: "step env c = Inr c1"
    by (auto split: sum.splits)
  have "\<exists>c2. steps env m c1 = Inr c2 \<and> cf_node c2 \<noteq> END" for m
    using Suc.prems [of "Suc m"] c1 by simp
  then have "graph_invoke env fuel c1 = OutOfFuel" by (rule Suc.IH)
  then show ?case using n c1 by simp
qed

text \<open>
  C2. When the task-generation stage fails at a cursor index, that is, the service call or
  the decoding of its response raises inside the \<^verbatim>\<open>try\<close> block, the node returns the
  state with only the error note rewritten: cursor, generated-task map and stub list are
  unchanged, and the conditional edge leads back to the same node. If every further call
  fails as well, then after any number of node executions the run is still at the
  task-generation node with the same cursor, one service call per execution, and the run
  never ends whatever its fuel.
\<close>

theorem task_generation_failure_keeps_cursor:
  assumes "cf_node c = GenerateTasks" "ds_subgoals_list (cf_state c) = PList stubs"
    and "ds_current_subgoal_index (cf_state c) < length stubs"
    and "is_dict (stubs ! ds_current_subgoal_index (cf_state c))"
  shows
    "(llm_data env (cf_calls c) = Inl e \<longrightarrow>
        generate_tasks_for_subgoal_node env (cf_calls c) (cf_state c) =
          Inr ((cf_state c)\<lparr>ds_error := ''Task generation error: '' @ str_exn e\<rparr>,
               Suc (cf_calls c)) \<and>
        step env c =
          Inr \<lparr>cf_node = GenerateTasks,
               cf_state = (cf_state c)\<lparr>ds_error := ''Task generation error: '' @ str_exn e\<rparr>,
               cf_calls = Suc (cf_calls c)\<rparr>) \<and>
     ((\<forall>m. \<not> call_ok env (cf_calls c + m)) \<longrightarrow>
        (\<forall>m. \<exists>c1. steps env m c = Inr c1 \<and> cf_node c1 = GenerateTasks \<and>
           ds_subgoals_list (cf_state c1) = PList stubs \<and>
           ds_current_subgoal_index (cf_state c1) = ds_current_subgoal_index (cf_state c) \<and>
           ds_generated_tasks (cf_state c1) = ds_generated_tasks (cf_state c) \<and>
           cf_calls c1 = cf_calls c + m) \<and>
        (\<forall>fuel. graph_invoke env fuel c = OutOfFuel))"
proof (intro conjI impI allI)
  assume e: "llm_data env (cf_calls c) = Inl e"
  show "generate_tasks_for_subgoal_node env (cf_calls c) (cf_state c) =
          Inr ((cf_state c)\<lparr>ds_error := ''Task generation error: '' @ str_exn e\<rparr>,
               Suc (cf_calls c))"
    by (simp add: generate_node_body [OF assms(2,3,4)] e)
  show "step env c =
          Inr \<lparr>cf_node = GenerateTasks,
               cf_state = (cf_state c)\<lparr>ds_error := ''Task generation error: '' @ str_exn e\<rparr>,
               cf_calls = Suc (cf_calls c)\<rparr>"
    by (rule step_GenerateTasks_failure [OF assms e])
next
  fix m assume "\<forall>m. \<not> call_ok env (cf_calls c + m)"
  then show "\<exists>c1. steps env m c = Inr c1 \<and> cf_node c1 = GenerateTasks \<and>
           ds_subgoals_list (cf_state c1) = PList stubs \<and>
           ds_current_subgoal_index (cf_state c1) = ds_current_subgoal_index (cf_state c) \<and>
           ds_generated_tasks (cf_state c1) = ds_generated_tasks (cf_state c) \<and>
           cf_calls c1 = cf_calls c + m"
    by (rule failure_steps [OF assms])
next
  fix fuel assume a: "\<forall>m. \<not> call_ok env (cf_calls c + m)"
  have "\<exists>c1. steps env m c = Inr c1 \<and> cf_node c1 \<noteq> END" for m
    using failure_steps [OF assms a, of m] by auto
  then show "graph_invoke env fuel c = OutOfFuel"
    by (rule graph_invoke_never_ends)
qed

section \<open>Example runs\<close>

lemmas ex_pipeline_defs = llm_data_def extract_json_def py_strip_def is_space_def str_index_def
  str_rindex_def py_slice_def bind_result_def as_dict_attr_def ex_env_def ex_loads_def
  ex_llm_ok_def ex_llm_fail_def ex_llm_bad_def ex_llm_down_def ex_split_text_def ex_dq_def Let_def

lemma ex_llm_data_ok:
  "llm_data (ex_env ex_llm_ok) 0 = Inl (ValueError ''substring not found'')"
  "llm_data (ex_env ex_llm_ok) (Suc 0) = Inr [(''subgoals'', PList ex_stubs)]"
  "1 < k \<Longrightarrow> llm_data (ex_env ex_llm_ok) k = Inr []"
  by (simp_all add: ex_pipeline_defs)

lemma ex_llm_data_fail:
  "llm_data (ex_env ex_llm_fail) (Suc 0) = Inr [(''subgoals'', PList ex_stubs)]"
  "k \<noteq> 1 \<Longrightarrow> llm_data (ex_env ex_llm_fail) k = Inl (ServiceError ''429 quota exceeded'')"
  by (simp_all add: ex_pipeline_defs)

lemma ex_llm_data_bad:
  "llm_data (ex_env ex_llm_bad) k =
     Inl (JSONDecodeError ''Expecting property name enclosed in double quotes'')"
  by (simp add: ex_pipeline_defs)

lemma ex_llm_data_down:
  "llm_data (ex_env ex_llm_down) k = Inl (ServiceError ''connection refused'')"
  by (simp add: ex_pipeline_defs)

lemma ex_split_state_ok:
  "ds_subgoals_list (split_state (ex_env ex_llm_ok) ''Prepare for exam'' ''Academics'' []) =
     PList ex_stubs"
  by (simp add: split_state_def decompose_to_subgoals_node_def ex_llm_data_ok dict_get_def)

lemma ex_split_state_fail:
  "ds_subgoals_list (split_state (ex_env ex_llm_fail) ''Prepare for exam'' ''Academics'' []) =
     PList ex_stubs"
  by (simp add: split_state_def decompose_to_subgoals_node_def ex_llm_data_fail dict_get_def)

theorem task_generation_loop_runs_n_times_witness:
  "ds_subgoals_list (split_state (ex_env ex_llm_ok) ''Prepare for exam'' ''Academics'' []) =
     PList ex_stubs \<and>
   list_all is_dict ex_stubs \<and> length ex_stubs = 2 \<and>
   call_ok (ex_env ex_llm_ok) 2 \<and> call_ok (ex_env ex_llm_ok) 3 \<and>
   (\<exists>c. steps (ex_env ex_llm_ok) 4 (initial_config ''Prepare for exam'' ''Academics'' []) = Inr c \<and>
        cf_node c = Finalize \<and>
        ds_current_subgoal_index (cf_state c) = 2 \<and>
        ds_generated_tasks (cf_state c) = [(''subgoal_0'', PList []), (''subgoal_1'', PList [])] \<and>
        cf_calls c = 4)"
proof -
  have h2: "list_all is_dict ex_stubs"
    by (simp add: ex_stubs_def is_dict_def)
  have h3: "\<forall>i<length ex_stubs. call_ok (ex_env ex_llm_ok) (2 + i)"
    by (simp add: call_ok_def ex_llm_data_ok)
  have st: "stored_tasks (ex_env ex_llm_ok) 2 2 =
              [(''subgoal_0'', PList []), (''subgoal_1'', PList [])]"
    by (simp add: stored_tasks_def call_tasks_def ex_llm_data_ok dict_get_def
        upt_rec decimal.simps digit_char_def)
  have m: "2 + max 1 (length ex_stubs) = 4" "length ex_stubs = 2"
    by (simp_all add: ex_stubs_def)
  from task_generation_loop_runs_n_times [OF ex_split_state_ok h2 h3]
  have "\<exists>c. steps (ex_env ex_llm_ok) (2 + max 1 (length ex_stubs))
              (initial_config ''Prepare for exam'' ''Academics'' []) = Inr c \<and>
         cf_node c = Finalize \<and>
         ds_current_subgoal_index (cf_state c) = length ex_stubs \<and>
         ds_generated_tasks (cf_state c) = stored_tasks (ex_env ex_llm_ok) 2 (length ex_stubs) \<and>
         cf_calls c = 2 + length ex_stubs"
    by blast
  then have "\<exists>c. steps (ex_env ex_llm_ok) 4 (initial_config ''Prepare for exam'' ''Academics'' []) = Inr c \<and>
        cf_node c = Finalize \<and>
        ds_current_subgoal_index (cf_state c) = 2 \<and>
        ds_generated_tasks (cf_state c) = [(''subgoal_0'', PList []), (''subgoal_1'', PList [])] \<and>
        cf_calls c = 4"
    unfolding m st by simp
  moreover have "call_ok (ex_env ex_llm_ok) 2" "call_ok (ex_env ex_llm_ok) 3"
    by (simp_all add: call_ok_def ex_llm_data_ok)
  ultimately show ?thesis using ex_split_state_ok h2 m(2) by blast
qed

theorem task_generation_failure_keeps_cursor_witness:
  "cf_node ex_config_fail = GenerateTasks \<and>
   ds_subgoals_list (cf_state ex_config_fail) = PList ex_stubs \<and>
   ds_current_subgoal_index (cf_state ex_config_fail) < length ex_stubs \<and>
   is_dict (ex_stubs ! ds_current_subgoal_index (cf_state ex_config_fail)) \<and>
   llm_data (ex_env ex_llm_fail) (cf_calls ex_config_fail) =
     Inl (ServiceError ''429 quota exceeded'') \<and>
   (\<forall>m. \<not> call_ok (ex_env ex_llm_fail) (cf_calls ex_config_fail + m)) \<and>
   step (ex_env ex_llm_fail) ex_config_fail =
     Inr \<lparr>cf_node = GenerateTasks,
          cf_state = (cf_state ex_config_fail)
             \<lparr>ds_error := ''Task generation error: 429 quota exceeded''\<rparr>,
          cf_calls = 3\<rparr> \<and>
   graph_invoke (ex_env ex_llm_fail) 1000 ex_config_fail = OutOfFuel"
proof -
  have h1: "cf_node ex_config_fail = GenerateTasks"
    and h2: "ds_subgoals_list (cf_state ex_config_fail) = PList ex_stubs"
    and h3: "ds_current_subgoal_index (cf_state ex_config_fail) < length ex_stubs"
    and k: "cf_calls ex_config_fail = 2"
    by (simp_all add: ex_config_fail_def ex_split_state_fail split_state_fields ex_stubs_def)
  have h4: "is_dict (ex_stubs ! ds_current_subgoal_index (cf_state ex_config_fail))"
    by (simp add: ex_config_fail_def split_state_fields ex_stubs_def is_dict_def)
  have h5: "llm_data (ex_env ex_llm_fail) (cf_calls ex_config_fail) =
     Inl (ServiceError ''429 quota exceeded'')"
    by (simp add: k ex_llm_data_fail)
  have h6: "\<forall>m. \<not> call_ok (ex_env ex_llm_fail) (cf_calls ex_config_fail + m)"
    by (simp add: k call_ok_def ex_llm_data_fail)
  from task_generation_failure_keeps_cursor [OF h1 h2 h3 h4,
      of "ex_env ex_llm_fail" "ServiceError ''429 quota exceeded''"] h5 h6
  have "step (ex_env ex_llm_fail) ex_config_fail =
     Inr \<lparr>cf_node = GenerateTasks,
          cf_state = (cf_state ex_config_fail)
             \<lparr>ds_error := ''Task generation error: '' @ str_exn (ServiceError ''429 quota exceeded'')\<rparr>,
          cf_calls = Suc (cf_calls ex_config_fail)\<rparr>"
    and "graph_invoke (ex_env ex_llm_fail) 1000 ex_config_fail = OutOfFuel"
    by blast+
  then show ?thesis
    using h1 h2 h3 h4 h5 h6 by (simp add: k str_exn_def)
qed

theorem parse_goal_node_fallback_witness:
  "llm (ex_env ex_llm_down) 0 = Inl (ServiceError ''connection refused'') \<and>
   fst (parse_goal_node (ex_env ex_llm_down) 0 (initial_state ''Prepare for exam'' ''Academics'' [])) =
     (initial_state ''Prepare for exam'' ''Academics'' [])
       \<lparr>ds_parsed_goal_title := PStr ''Prepare for exam'',
        ds_error := ''Parse error: connection refused''\<rparr> \<and>
   llm (ex_env ex_llm_ok) 0 = Inr ''I cannot help with that.'' \<and>
   CHR ''{'' \<notin> set ''I cannot help with that.'' \<and>
   fst (parse_goal_node (ex_env ex_llm_ok) 0 (initial_state ''Prepare for exam'' ''Academics'' [])) =
     (initial_state ''Prepare for exam'' ''Academics'' [])
       \<lparr>ds_parsed_goal_title := PStr ''Prepare for exam'',
        ds_error := ''Parse error: substring not found''\<rparr> \<and>
   llm (ex_env ex_llm_bad) 0 = Inr ''{not json}'' \<and>
   json_loads (ex_env ex_llm_bad) ''{not json}'' =
     Inl (JSONDecodeError ''Expecting property name enclosed in double quotes'') \<and>
   fst (parse_goal_node (ex_env ex_llm_bad) 0 (initial_state ''Prepare for exam'' ''Academics'' [])) =
     (initial_state ''Prepare for exam'' ''Academics'' [])
       \<lparr>ds_parsed_goal_title := PStr ''Prepare for exam'',
        ds_error := ''Parse error: Expecting property name enclosed in double quotes''\<rparr> \<and>
   step (ex_env ex_llm_bad) (initial_config ''Prepare for exam'' ''Academics'' []) =
     Inr \<lparr>cf_node = DecomposeToSubgoals,
          cf_state = (initial_state ''Prepare for exam'' ''Academics'' [])
            \<lparr>ds_parsed_goal_title := PStr ''Prepare for exam'',
             ds_error := ''Parse error: Expecting property name enclosed in double quotes''\<rparr>,
          cf_calls = 1\<rparr>"
  using parse_goal_node_fallback [of "ex_env ex_llm_down" 0 "ServiceError ''connection refused''"
      "''''" 0 0 "initial_state ''Prepare for exam'' ''Academics'' []"
      "initial_config ''Prepare for exam'' ''Academics'' []"]
    parse_goal_node_fallback [of "ex_env ex_llm_ok" 0 "ValueError ''substring not found''"
      "''I cannot help with that.''" 0 0 "initial_state ''Prepare for exam'' ''Academics'' []"
      "initial_config ''Prepare for exam'' ''Academics'' []"]
    parse_goal_node_fallback [of "ex_env ex_llm_bad" 0
      "JSONDecodeError ''Expecting property name enclosed in double quotes''"
      "''{not json}''" 0 9 "initial_state ''Prepare for exam'' ''Academics'' []"
      "initial_config ''Prepare for exam'' ''Academics'' []"]
  by (simp add: ex_env_def ex_llm_down_def ex_llm_ok_def ex_llm_bad_def ex_loads_def
      initial_state_def initial_config_def str_exn_def py_strip_def is_space_def str_index_def
      str_rindex_def py_slice_def ex_split_text_def ex_dq_def)

section \<open>The category of the resulting goal\<close>

lemma Goal_init_category:
  "g_category (fst (Goal_init uuids n now title descr sgs status cat created gid conf rat)) = cat"
  by (simp add: Goal_init_def split: prod.splits)

lemma add_subgoals_category:
  "add_subgoals uuids u generated goal i stubs = Inr (g, u1) \<Longrightarrow> g_category g = g_category goal"
proof (induction stubs arbitrary: u goal i)
  case Nil
  then show ?case by simp
next
  case (Cons sd stubs)
  from Cons.prems obtain u2 goal2 k where
    r: "add_subgoals uuids u2 generated goal2 k stubs = Inr (g, u1)"
    and c: "g_category goal2 = g_category goal"
    by (auto simp: Goal_add_subgoal_def Subgoal_init_def Let_def
        split: sum.splits prod.splits)
  from Cons.IH [OF r] c show ?case by simp
qed

lemma build_goal_category:
  assumes "build_goal env s = Inr (g, u)"
  shows "g_category g = ds_category s"
proof -
  from assms obtain title descr conf rat stubs where
    a: "add_subgoals (uuid4 env)
          (snd (Goal_init (uuid4 env) 0 (datetime_now env) title descr None ''active''
                  (ds_category s) None None conf rat))
          (ds_generated_tasks s)
          (fst (Goal_init (uuid4 env) 0 (datetime_now env) title descr None ''active''
                  (ds_category s) None None conf rat)) 0 stubs = Inr (g, u)"
    by (auto simp: build_goal_def bind_result_Inr split_def)
  from add_subgoals_category [OF a] show ?thesis
    by (simp only: Goal_init_category)
qed

lemma finalize_goal_node_category:
  assumes "category_kept cat s" "finalize_goal_node env s = Inr s1"
  shows "category_kept cat s1"
proof (cases "build_goal env s")
  case (Inl e)
  with assms show ?thesis
    by (cases e) (auto simp: finalize_goal_node_def category_kept_def)
next
  case (Inr r)
  obtain g u where r: "r = (g, u)" by (cases r)
  from build_goal_category [of env s g u] Inr r have "g_category g = ds_category s" by simp
  with assms Inr r show ?thesis
    by (auto simp: finalize_goal_node_def category_kept_def)
qed

lemma generate_node_category:
  assumes "category_kept cat s" "generate_tasks_for_subgoal_node env k s = Inr (s1, k1)"
  shows "category_kept cat s1"
  using assms
  by (auto simp: generate_tasks_for_subgoal_node_def bind_result_Inr category_kept_def Let_def
      split: if_splits sum.splits)

lemma step_category:
  assumes "category_kept cat (cf_state c)" "step env c = Inr c1"
  shows "category_kept cat (cf_state c1)"
proof (cases "cf_node c")
  case ParseGoal
  with assms show ?thesis
    by (auto simp: step_def parse_goal_node_def category_kept_def split: sum.splits)
next
  case DecomposeToSubgoals
  with assms show ?thesis
    by (auto simp: step_def decompose_to_subgoals_node_def category_kept_def split: sum.splits)
next
  case GenerateTasks
  with assms obtain s1 k1 where "generate_tasks_for_subgoal_node env (cf_calls c) (cf_state c) = Inr (s1, k1)"
    and "cf_state c1 = s1"
    by (auto simp: step_def bind_result_Inr)
  with assms(1) show ?thesis using generate_node_category by blast
next
  case Finalize
  with assms obtain s1 where "finalize_goal_node env (cf_state c) = Inr s1" "cf_state c1 = s1"
    by (auto simp: step_def bind_result_Inr)
  with assms(1) show ?thesis using finalize_goal_node_category by blast
next
  case END
  with assms show ?thesis by (simp add: step_def)
qed

lemma graph_invoke_category:
  "category_kept cat (cf_state c) \<Longrightarrow> graph_invoke env fuel c = Done s \<Longrightarrow> category_kept cat s"
proof (induction fuel arbitrary: c)
  case 0
  then show ?case by (simp split: if_splits)
next
  case (Suc fuel)
  show ?case
  proof (cases "cf_node c = END")
    case True
    with Suc.prems show ?thesis by simp
  next
    case False
    with Suc.prems obtain c1 where c1: "step env c = Inr c1" "graph_invoke env fuel c1 = Done s"
      by (auto split: sum.splits)
    from step_category [OF Suc.prems(1) c1(1)] c1(2) show ?thesis by (rule Suc.IH)
  qed
qed

lemma ex_env_sel:
  "uuid4 (ex_env l) = ex_uuids" "datetime_now (ex_env l) = g_created_at ex_goal2"
  by (simp_all add: ex_env_def)

lemma ex_run_down:
  "decompose_goal_with_langgraph (ex_env ex_llm_down) 4 gt cat [] =
     Done (Some \<lparr>g_id = ''uuid-0'', g_title = gt, g_description = '''',
                 g_subgoals = [], g_status = ''active'', g_category = cat,
                 g_created_at = g_created_at ex_goal2, g_confidence = 5, g_rationale = ''''\<rparr>)"
proof -
  have p: "parse_goal_node (ex_env ex_llm_down) k s =
       (s\<lparr>ds_parsed_goal_title := PStr (ds_goal_text s), ds_parsed_goal_description := PStr '''',
          ds_error := ''Parse error: connection refused''\<rparr>, Suc k)" for k s
    by (simp add: parse_goal_node_def ex_llm_data_down str_exn_def)
  have d: "decompose_to_subgoals_node (ex_env ex_llm_down) k s =
       (s\<lparr>ds_subgoals_list := PList [],
          ds_error := ''Subgoal decomposition error: connection refused''\<rparr>, Suc k)" for k s
    by (simp add: decompose_to_subgoals_node_def ex_llm_data_down str_exn_def)
  have "graph_invoke (ex_env ex_llm_down) (Suc (Suc (Suc (Suc 0)))) (initial_config gt cat []) =
        Done ((initial_state gt cat [])
          \<lparr>ds_parsed_goal_title := PStr gt,
           ds_final_goal := Some \<lparr>g_id = ''uuid-0'', g_title = gt, g_description = '''',
                 g_subgoals = [], g_status = ''active'', g_category = cat,
                 g_created_at = g_created_at ex_goal2, g_confidence = 5, g_rationale = ''''\<rparr>,
           ds_error := ''Subgoal decomposition error: connection refused''\<rparr>)"
    by (simp add: initial_config_def initial_state_def step_def p d bind_result_def
        generate_tasks_for_subgoal_node_def should_continue_task_generation_def py_len_def
        finalize_goal_node_def build_goal_def as_str_def as_int_def py_iter_def Goal_init_def
        id_or_uuid_def ex_env_sel ex_uuids_def decimal.simps digit_char_def)
  then show ?thesis
    by (simp add: decompose_goal_with_langgraph_def eval_nat_numeral)
qed

text \<open>
  C9, as stated, fails: the value \<^verbatim>\<open>Music\<close> is not one of the four categories, the
  constructor stores it, and a run of the pipeline (here one in which every service call
  fails, so that the fallbacks apply) returns a goal that carries it.
\<close>

theorem category_not_validated_counterexample:
  "''Music'' \<notin> allowed_categories \<and>
   g_category (fst (Goal_init ex_uuids 0 (g_created_at ex_goal2) ''Learn piano'' '''' None
                      ''active'' ''Music'' None None 5 '''')) = ''Music'' \<and>
   decompose_goal_with_langgraph (ex_env ex_llm_down) 4 ''Learn piano'' ''Music'' [] =
     Done (Some \<lparr>g_id = ''uuid-0'', g_title = ''Learn piano'', g_description = '''',
                 g_subgoals = [], g_status = ''active'', g_category = ''Music'',
                 g_created_at = g_created_at ex_goal2, g_confidence = 5, g_rationale = ''''\<rparr>)"
  by (simp add: ex_run_down Goal_init_category allowed_categories_def)

text \<open>
  C9, amended. The category passed to the constructor of \<^verbatim>\<open>Goal\<close> or to the pipeline
  entry is stored on the resulting goal as it is, whether or not it is one of the four
  categories: the goal returned by a run carries exactly the category given to the run.
\<close>

theorem category_stored_verbatim:
  "g_category (fst (Goal_init uuids n now title descr sgs status cat created gid conf rat)) = cat \<and>
   (decompose_goal_with_langgraph env fuel goal_text cat fb = Done (Some g) \<longrightarrow>
      g_category g = cat)"
proof (intro conjI impI)
  show "g_category (fst (Goal_init uuids n now title descr sgs status cat created gid conf rat)) = cat"
    by (rule Goal_init_category)
  assume a: "decompose_goal_with_langgraph env fuel goal_text cat fb = Done (Some g)"
  then obtain s where s: "graph_invoke env fuel (initial_config goal_text cat fb) = Done s"
      "ds_final_goal s = Some g"
    by (auto simp: decompose_goal_with_langgraph_def split: run_result.splits)
  have "category_kept cat (cf_state (initial_config goal_text cat fb))"
    by (simp add: category_kept_def initial_config_def initial_state_def)
  from graph_invoke_category [OF this s(1)] s(2) show "g_category g = cat"
    by (simp add: category_kept_def)
qed

theorem category_stored_verbatim_witness:
  "decompose_goal_with_langgraph (ex_env ex_llm_down) 4 ''Learn chess'' ''Hobbies'' [] =
     Done (Some \<lparr>g_id = ''uuid-0'', g_title = ''Learn chess'', g_description = '''',
                 g_subgoals = [], g_status = ''active'', g_category = ''Hobbies'',
                 g_created_at = g_created_at ex_goal2, g_confidence = 5, g_rationale = ''''\<rparr>) \<and>
   g_category \<lparr>g_id = ''uuid-0'', g_title = ''Learn chess'', g_description = '''',
                 g_subgoals = [], g_status = ''active'', g_category = ''Hobbies'',
                 g_created_at = g_created_at ex_goal2, g_confidence = 5, g_rationale = ''''\<rparr> =
     ''Hobbies''"
  using category_stored_verbatim [of ex_uuids 0 "g_created_at ex_goal2" "''Learn chess''" "''''"
      None "''active''" "''Hobbies''" None None 5 "''''" "ex_env ex_llm_down" 4 "''Learn chess''" "[]"
      "\<lparr>g_id = ''uuid-0'', g_title = ''Learn chess'', g_description = '''',
                 g_subgoals = [], g_status = ''active'', g_category = ''Hobbies'',
                 g_created_at = g_created_at ex_goal2, g_confidence = 5, g_rationale = ''''\<rparr>"]
    ex_run_down [of "''Learn chess''" "''Hobbies''"]
  by simp

section \<open>A complete run\<close>

text \<open>
  A run in which the parse call returns no JSON, the split call returns two stubs and each
  task-generation call returns one task with one subtask: the goal that the entry point
  returns, with the identifiers in the order in which they are drawn.
\<close>

lemma ex_llm_data_full:
  "llm_data ex_env_full 0 = Inl (ValueError ''substring not found'')"
  "llm_data ex_env_full (Suc 0) = Inr [(''subgoals'', PList ex_stubs)]"
  "1 < k \<Longrightarrow> llm_data ex_env_full k =
     Inr [(''tasks'', PList [PDict [(''task'', PStr ''Read''), (''estimated_minutes'', PInt 15),
                                    (''subtasks'', PList [PStr ''open book''])]]),
          (''confidence'', PInt 8)]"
  by (simp_all add: llm_data_def extract_json_def py_strip_def is_space_def str_index_def
      str_rindex_def py_slice_def bind_result_def as_dict_attr_def ex_env_full_def
      ex_loads_full_def ex_loads_def ex_tasks_text_def ex_split_text_def ex_dq_def Let_def)

lemma ex_final_goal_wf: "wf_goal ex_final_goal \<and> Goal_get_total_tasks ex_final_goal = 2"
  by (simp add: ex_final_goal_def wf_goal_def wf_subgoal_def wf_task_def wf_subtask_def
      Goal_get_total_tasks_def ex_goal2_def valid_datetime_def days_in_month_def)

lemma generate_node_non_dict_stub:
  assumes "ds_subgoals_list s = PList stubs" "ds_current_subgoal_index s < length stubs"
    and "\<not> is_dict (stubs ! ds_current_subgoal_index s)"
  shows "\<exists>m. generate_tasks_for_subgoal_node env k s = Inl (AttributeError m)"
proof -
  have "\<exists>m. as_dict_attr (stubs ! ds_current_subgoal_index s) = Inl (AttributeError m)"
    using assms(3) by (cases "stubs ! ds_current_subgoal_index s") (simp_all add: is_dict_def as_dict_attr_def)
  then show ?thesis
    using assms(1,2)
    by (auto simp: generate_tasks_for_subgoal_node_def py_len_def py_index_def bind_result_def)
qed

lemma ex_env_full_sel:
  "uuid4 ex_env_full = ex_uuids" "datetime_now ex_env_full = g_created_at ex_goal2"
  by (simp_all add: ex_env_full_def)

lemma ex_uuids_values:
  "ex_uuids 0 = ''uuid-0''" "ex_uuids (Suc 0) = ''uuid-1''" "ex_uuids (Suc (Suc 0)) = ''uuid-2''"
  "ex_uuids (Suc (Suc (Suc 0))) = ''uuid-3''" "ex_uuids (Suc (Suc (Suc (Suc 0)))) = ''uuid-4''"
  "ex_uuids (Suc (Suc (Suc (Suc (Suc 0))))) = ''uuid-5''"
  "ex_uuids (Suc (Suc (Suc (Suc (Suc (Suc 0)))))) = ''uuid-6''"
  by (simp_all add: ex_uuids_def decimal.simps digit_char_def)

lemma ex_run_full:
  "decompose_goal_with_langgraph ex_env_full 5 ''Prepare for exam'' ''Academics'' [] =
     Done (Some ex_final_goal)"
  by (simp add: decompose_goal_with_langgraph_def eval_nat_numeral initial_config_def
      initial_state_def step_def parse_goal_node_def decompose_to_subgoals_node_def
      generate_tasks_for_subgoal_node_def should_continue_task_generation_def
      ex_llm_data_full bind_result_def py_len_def py_index_def as_dict_attr_def dict_get_def
      dict_set_def ex_stubs_def str_exn_def decimal.simps digit_char_def
      finalize_goal_node_def build_goal_def as_str_def as_int_def as_opt_int_def py_iter_def
      Goal_init_def Goal_add_subgoal_def Subgoal_init_def Subgoal_add_task_def Task_init_def
      Task_add_subtask_def Subtask_init_def add_task_from_data_def id_or_uuid_def
      ex_env_full_sel ex_uuids_values ex_final_goal_def)

end
